theory Spec2Isabelle
  imports Main
begin

section \<open>Strings and JavaScript values\<close>

text \<open>
  A JavaScript string is modelled as a \<^typ>\<open>string\<close>, one character per code unit.
  The Vietnamese message literals of the sources are written without their diacritics;
  two literals of the sources are equal exactly when their transliterations are.
  A request field that may be \<^verbatim>\<open>undefined\<close> is a \<^typ>\<open>string option\<close>.
\<close>

definition truthy :: "string option \<Rightarrow> bool" where
  \<comment> \<open>\<^verbatim>\<open>!!v\<close> for a value that is a string or undefined: the empty string is falsy\<close>
  "truthy v = (case v of None \<Rightarrow> False | Some s \<Rightarrow> s \<noteq> [])"

definition upper_chars :: string where
  "upper_chars = ''ABCDEFGHIJKLMNOPQRSTUVWXYZ''"

definition lower_chars :: string where
  "lower_chars = ''abcdefghijklmnopqrstuvwxyz''"

definition digit_chars :: string where
  "digit_chars = ''0123456789''"

definition special_chars :: string where
  \<comment> \<open>the class \<^verbatim>\<open>[!@#$%^&*(),.?":{}|<>]\<close>\<close>
  "special_chars = ''!@#$%^&*(),.?:{}|<>'' @ [CHR 0x22]"

definition hex_chars :: string where
  "hex_chars = ''0123456789abcdefABCDEF''"

definition is_upper :: "char \<Rightarrow> bool" where
  "is_upper c = (c \<in> set upper_chars)"

definition is_lower :: "char \<Rightarrow> bool" where
  "is_lower c = (c \<in> set lower_chars)"

definition is_digit :: "char \<Rightarrow> bool" where
  "is_digit c = (c \<in> set digit_chars)"

definition is_special :: "char \<Rightarrow> bool" where
  "is_special c = (c \<in> set special_chars)"

definition is_hex :: "char \<Rightarrow> bool" where
  "is_hex c = (c \<in> set hex_chars)"

definition is_alnum :: "char \<Rightarrow> bool" where
  "is_alnum c = (is_upper c \<or> is_lower c \<or> is_digit c)"

definition is_space :: "char \<Rightarrow> bool" where
  \<comment> \<open>white space as \<^verbatim>\<open>String.prototype.trim\<close> removes it, below code unit 256\<close>
  "is_space c = (c \<in> set [CHR 0x20, CHR 0x09, CHR 0x0A, CHR 0x0B, CHR 0x0C, CHR 0x0D, CHR 0xA0])"

definition is_line_end :: "char \<Rightarrow> bool" where
  \<comment> \<open>the characters the regular expression dot does not match\<close>
  "is_line_end c = (c = CHR 0x0A \<or> c = CHR 0x0D)"

definition trim :: "string \<Rightarrow> string" where
  "trim s = rev (dropWhile is_space (rev (dropWhile is_space s)))"

definition toLowerCase :: "string \<Rightarrow> string" where
  "toLowerCase s =
     map (\<lambda>c. case map_of (zip upper_chars lower_chars) c of Some l \<Rightarrow> l | None \<Rightarrow> c) s"

definition digit_val :: "char \<Rightarrow> nat" where
  "digit_val c =
     (case map_of [(CHR ''0'', 0), (CHR ''1'', 1), (CHR ''2'', 2), (CHR ''3'', 3), (CHR ''4'', 4),
                   (CHR ''5'', 5), (CHR ''6'', 6), (CHR ''7'', 7), (CHR ''8'', 8), (CHR ''9'', 9)] c of
        Some d \<Rightarrow> d
      | None \<Rightarrow> 0)"

definition nat_of_digits :: "string \<Rightarrow> nat" where
  "nat_of_digits ds = foldl (\<lambda>n c. 10 * n + digit_val c) 0 ds"

fun digits_of :: "nat \<Rightarrow> nat \<Rightarrow> string" where
  \<comment> \<open>decimal digits of a number, most significant first; the first argument is fuel\<close>
  "digits_of 0 n = []"
| "digits_of (Suc k) n =
     (if n < 10 then [digit_chars ! n] else digits_of k (n div 10) @ [digit_chars ! (n mod 10)])"

definition show_nat :: "nat \<Rightarrow> string" where
  \<comment> \<open>what a template literal prints for a non-negative integer\<close>
  "show_nat n = digits_of (Suc n) n"

section \<open>helper/authHelpers.js: password policy\<close>

definition minLength :: nat where
  "minLength = 8"

definition isValidPassword :: "string \<Rightarrow> string list" where
  \<comment> \<open>returns the list of violated rules, in the order of the five tests\<close>
  "isValidPassword password =
     (if length password < minLength
        then [''Mat khau phai chua it nhat 8 ky tu.''] else []) @
     (if \<not> list_ex is_upper password
        then [''Mat khau phai chua it nhat mot chu cai viet hoa.''] else []) @
     (if \<not> list_ex is_lower password
        then [''Mat khau phai chua it nhat mot chu cai viet thuong.''] else []) @
     (if \<not> list_ex is_digit password
        then [''Mat khau phai chua it nhat mot chu so.''] else []) @
     (if \<not> list_ex is_special password
        then [''Mat khau phai chua it nhat mot ky tu dac biet (!@#$%^&*...).''] else [])"

definition array_truthy :: "'a list \<Rightarrow> bool" where
  \<comment> \<open>\<^verbatim>\<open>!!xs\<close> for an array: every array is truthy, the empty one too\<close>
  "array_truthy xs = True"

section \<open>Credential codec and session tokens\<close>

text \<open>
  Modelled from the spec: the bcrypt package (\<^verbatim>\<open>bcrypt.hash\<close>, \<^verbatim>\<open>bcrypt.compare\<close>) is
  not among the sources. Section 4.1 of the specification gives its contract: hashing
  draws a fresh salt and returns a one-way digest that encodes the salt; verification
  recomputes the digest from the candidate and returns false on any mismatch or on a
  malformed digest. A stored password is therefore either the digest of a plaintext under
  a salt, or a string stored as it came (which is not a digest).
\<close>

datatype pw = Digest string string | Clear string

definition bcrypt_hash :: "string \<Rightarrow> string \<Rightarrow> pw" where
  \<comment> \<open>Modelled from the spec: \<^verbatim>\<open>bcrypt.hash\<close>; first argument: the salt drawn for
      this call\<close>
  "bcrypt_hash salt plaintext = Digest salt plaintext"

fun bcrypt_compare :: "string \<Rightarrow> pw \<Rightarrow> bool" where
  \<comment> \<open>Modelled from the spec: \<^verbatim>\<open>bcrypt.compare\<close>\<close>
  "bcrypt_compare candidate (Digest salt plaintext) = (candidate = plaintext)"
| "bcrypt_compare candidate (Clear s) = False"

fun is_digest :: "pw \<Rightarrow> bool" where
  "is_digest (Digest salt plaintext) = True"
| "is_digest (Clear s) = False"

definition hashPassword :: "string \<Rightarrow> string \<Rightarrow> pw" where
  "hashPassword salt password = bcrypt_hash salt password"

definition checkPassword :: "string \<Rightarrow> pw \<Rightarrow> bool" where
  "checkPassword password hashedPassword = bcrypt_compare password hashedPassword"

record claims =
  userIdFromToken :: string
  usernameFromToken :: string
  userRoleFromToken :: string

text \<open>
  Modelled from the spec: the jsonwebtoken package (\<^verbatim>\<open>jwt.sign\<close>, \<^verbatim>\<open>jwt.verify\<close>) is
  not among the sources. Sections 3 and 4.2 of the specification: a session token is a
  signed, self-contained assertion of identity id, username and role with an expiration
  timestamp; it is valid only if its signature verifies against the server's secret and
  its expiration has not passed; verification fails with SignatureInvalid, Expired or
  Malformed. A token string is either such an assertion (payload, expiry in seconds,
  signing key) or any other string. Time is counted in seconds.
\<close>

datatype token = Jwt claims nat string | NotJwt string

datatype jwt_error = SignatureInvalid | Expired | Malformed

definition token_truthy :: "token \<Rightarrow> bool" where
  \<comment> \<open>only the empty string is falsy\<close>
  "token_truthy t = (t \<noteq> NotJwt [])"

definition ms :: "string \<Rightarrow> nat option" where
  \<comment> \<open>Modelled from the spec: the time span a string such as 7d or 1h names for
      jsonwebtoken's \<^verbatim>\<open>expiresIn\<close>, in milliseconds: decimal digits, then at most one
      unit letter; a string of another form names none\<close>
  "ms s =
     (let ds = takeWhile is_digit s; u = dropWhile is_digit s; n = nat_of_digits ds in
      if ds = [] then None
      else if u = [] then Some n
      else if u = ''s'' then Some (n * 1000)
      else if u = ''m'' then Some (n * 60000)
      else if u = ''h'' then Some (n * 3600000)
      else if u = ''d'' then Some (n * 86400000)
      else if u = ''w'' then Some (n * 604800000)
      else None)"

datatype exn =
    JwtSignError | BcryptError | StoreError | CloudinaryError | TypeError

definition jwt_sign :: "claims \<Rightarrow> string \<Rightarrow> string \<Rightarrow> nat \<Rightarrow> exn + token" where
  \<comment> \<open>Modelled from the spec: \<^verbatim>\<open>jwt.sign\<close>; payload, secret, the \<^verbatim>\<open>expiresIn\<close>
      option, time of issuance\<close>
  "jwt_sign payload secret expiresIn now =
     (case ms expiresIn of
        None \<Rightarrow> Inl JwtSignError
      | Some span \<Rightarrow> Inr (Jwt payload (now + span div 1000) secret))"

fun jwt_verify :: "token \<Rightarrow> string \<Rightarrow> nat \<Rightarrow> jwt_error + claims" where
  \<comment> \<open>Modelled from the spec: \<^verbatim>\<open>jwt.verify\<close>; token, secret, current time\<close>
  "jwt_verify (NotJwt s) secret now = Inl Malformed"
| "jwt_verify (Jwt payload exp key) secret now =
     (if key \<noteq> secret then Inl SignatureInvalid
      else if exp \<le> now then Inl Expired
      else Inr payload)"

section \<open>Requests and responses\<close>

record env =
  JWT_SECRET :: string
  TOKEN_EXPIRATION :: "string option"
  NODE_ENV :: "string option"
  isMobilePhone :: "string \<Rightarrow> bool"
  isEmail :: "string \<Rightarrow> bool"
  objectIdIsValid :: "string \<Rightarrow> bool"
  defaultIsActive :: bool

text \<open>
  The environment holds the process configuration (\<^verbatim>\<open>process.env\<close>) and the packages
  whose code is not among the sources and whose results the claims do not depend on: the
  validator package's \<^verbatim>\<open>isMobilePhone(_, "vi-VN")\<close> and \<^verbatim>\<open>isEmail\<close>, Mongoose's
  \<^verbatim>\<open>ObjectId.isValid\<close>, and the user schema's default for \<^verbatim>\<open>isActive\<close>.
\<close>

record cookie_opts =
  httpOnly :: bool
  secure :: bool
  sameSite :: string
  maxAge :: "nat option"

datatype cookie_op = SetCookie string token cookie_opts | ClearCookie string cookie_opts

datatype detail = Joi string string | Message string

record user =
  uid :: string
  username :: string
  phone :: string
  password :: "pw option"
  fullName :: string
  email :: "string option"
  role :: string
  isActive :: bool
  rememberMe :: "bool option"
  avatar :: "string option"

record paging =
  totalPages :: nat
  currentPage :: int
  totalItems :: nat
  perPage :: nat

record response =
  status :: nat
  success :: "bool option"
  message :: "string option"
  rtype :: "string option"
  errors :: "string list option"
  details :: "detail list option"
  error :: "exn option"
  res_user :: "user option"
  res_users :: "user list option"
  res_token :: "token option"
  res_paging :: "paging option"
  cookies :: "cookie_op list"

definition reply :: "nat \<Rightarrow> response" where
  \<comment> \<open>\<^verbatim>\<open>res.status(n).json({})\<close>: the fields of the body are added by record update\<close>
  "reply n = \<lparr>status = n, success = None, message = None, rtype = None, errors = None,
     details = None, error = None, res_user = None, res_users = None, res_token = None,
     res_paging = None, cookies = []\<rparr>"

record req =
  cookies_token :: "token option"
  authorization :: "token list option"
  params_id :: "string option"
  query_page :: "int option"
  file_path :: "string option"
  body_username :: "string option"
  body_phone :: "string option"
  body_password :: "string option"
  body_fullName :: "string option"
  body_confirmPassword :: "string option"
  body_usernameOrPhone :: "string option"
  body_email :: "string option"
  body_images :: "string option"
  body_role :: "string option"
  body_currentPassword :: "string option"
  body_newPassword :: "string option"
  body_rememberMe :: "bool option"
  body_isActive :: "bool option"

text \<open>
  One record holds what the handlers read of a request; the body's fields are strings
  or absent (the two flags are booleans or absent), \<^verbatim>\<open>query_page\<close> is what
  \<^verbatim>\<open>parseInt(req.query.page, 10)\<close> yields (absent for NaN), \<^verbatim>\<open>file_path\<close> is
  \<^verbatim>\<open>req.file.path\<close> when a file was uploaded.
  \<^verbatim>\<open>req.cookies.token\<close> is the cookie's value when the request carries it.
  \<^verbatim>\<open>req.headers.authorization\<close> is given by the pieces of the header between single
  spaces, which is what \<^verbatim>\<open>split(" ")\<close> returns; the header \<^verbatim>\<open>Bearer t\<close> is
  \<^term>\<open>[NotJwt ''Bearer'', t]\<close>. \<^verbatim>\<open>req.params.id\<close> is absent on a route whose path has
  no \<^verbatim>\<open>:id\<close>.
\<close>

datatype 'a mw = Respond response | Next 'a

definition production :: "env \<Rightarrow> bool" where
  "production e = (NODE_ENV e = Some ''production'')"

definition clear_opts :: "env \<Rightarrow> cookie_opts" where
  "clear_opts e = \<lparr>httpOnly = True, secure = production e,
     sameSite = (if production e then ''None'' else ''Lax''), maxAge = None\<rparr>"

definition session_opts :: "env \<Rightarrow> cookie_opts" where
  \<comment> \<open>7 days, in milliseconds\<close>
  "session_opts e = \<lparr>httpOnly = True, secure = production e,
     sameSite = (if production e then ''None'' else ''Lax''),
     maxAge = Some (7 * 24 * 60 * 60 * 1000)\<rparr>"

definition handleError :: "exn \<Rightarrow> response" where
  "handleError ex = (reply 500)\<lparr>success := Some False,
     message := Some ''Internal server error'', error := Some ex\<rparr>"

section \<open>helper/authHelpers.js: tokens, authentication, authorization\<close>

definition generateToken :: "env \<Rightarrow> nat \<Rightarrow> user \<Rightarrow> exn + token" where
  "generateToken e now u =
     (let expirationTime =
            (if rememberMe u = Some True then ''7d''
             else (case TOKEN_EXPIRATION e of
                     Some s \<Rightarrow> (if s \<noteq> [] then s else ''1h'')
                   | None \<Rightarrow> ''1h''))
      in jwt_sign \<lparr>userIdFromToken = uid u, usernameFromToken = username u,
                    userRoleFromToken = role u\<rparr>
           (JWT_SECRET e) expirationTime now)"

definition tokenFromHeader :: "req \<Rightarrow> token option" where
  \<comment> \<open>\<^verbatim>\<open>req.headers.authorization?.split(" ")[1]\<close>\<close>
  "tokenFromHeader r =
     (case authorization r of
        None \<Rightarrow> None
      | Some pieces \<Rightarrow> (if 1 < length pieces then Some (pieces ! 1) else None))"

definition or_token :: "token option \<Rightarrow> token option \<Rightarrow> token option" where
  \<comment> \<open>\<^verbatim>\<open>a || b\<close>\<close>
  "or_token a b = (case a of Some t \<Rightarrow> (if token_truthy t then a else b) | None \<Rightarrow> b)"

definition verifyToken :: "env \<Rightarrow> nat \<Rightarrow> req \<Rightarrow> claims mw" where
  "verifyToken e now r =
     (let tokenFromCookie = cookies_token r;
          token = or_token tokenFromCookie (tokenFromHeader r)
      in case token of
           None \<Rightarrow> Respond ((reply 401)\<lparr>success := Some False,
                      message := Some ''Vui long dang nhap!'', rtype := Some ''error''\<rparr>)
         | Some t \<Rightarrow>
             if \<not> token_truthy t
             then Respond ((reply 401)\<lparr>success := Some False,
                      message := Some ''Vui long dang nhap!'', rtype := Some ''error''\<rparr>)
             else (case jwt_verify t (JWT_SECRET e) now of
                     Inr decoded \<Rightarrow> Next decoded
                   | Inl err \<Rightarrow>
                       Respond ((reply 401)\<lparr>success := Some False,
                         message := Some ''Phien dang nhap khong hop le hoac da het han!'',
                         cookies := [ClearCookie ''token'' (clear_opts e)]\<rparr>)))"

definition checkAdminOrOwner :: "claims \<Rightarrow> string option \<Rightarrow> unit mw" where
  \<comment> \<open>second argument: \<^verbatim>\<open>req.params.id\<close>\<close>
  "checkAdminOrOwner user id' =
     (if userRoleFromToken user = ''admin'' \<or> Some (userIdFromToken user) = id'
      then Next ()
      else Respond ((reply 403)\<lparr>success := Some False,
             message := Some ''Ban khong co quyen thuc hien hanh dong nay.''\<rparr>))"

definition protected :: "env \<Rightarrow> nat \<Rightarrow> req \<Rightarrow> claims mw" where
  \<comment> \<open>the middleware chain \<^verbatim>\<open>verifyToken, checkAdminOrOwner\<close> in front of a handler\<close>
  "protected e now r =
     (case verifyToken e now r of
        Respond res \<Rightarrow> Respond res
      | Next decoded \<Rightarrow>
          (case checkAdminOrOwner decoded (params_id r) of
             Respond res \<Rightarrow> Respond res
           | Next _ \<Rightarrow> Next decoded))"

section \<open>The user store\<close>

text \<open>
  Modelled from the spec: models/UserModel and models/OrderModel are not among the
  sources. Section 6 of the specification: the persistence collaborator offers lookups by
  username, phone, email and id, insert, update and delete, each returning the full
  identity record or "not found". Section 3: username and phone are each unique across
  all identities, and role is one of user and admin, user being the default. Section 5:
  the store's own unique-index constraint is the enforcement backstop. The collection is
  the list of its documents in insertion order; of an order only its \<^verbatim>\<open>userId\<close> is kept.
\<close>

record state =
  users :: "user list"
  orders :: "string list"

definition findOne :: "(user \<Rightarrow> bool) \<Rightarrow> user list \<Rightarrow> user option" where
  \<comment> \<open>Modelled from the spec: the first document that matches the filter\<close>
  "findOne P us = List.find P us"

definition findById :: "string option \<Rightarrow> user list \<Rightarrow> user option" where
  \<comment> \<open>Modelled from the spec: lookup by id; an absent id matches no document\<close>
  "findById i us = (case i of None \<Rightarrow> None | Some x \<Rightarrow> List.find (\<lambda>u. uid u = x) us)"

definition admissible :: "user list \<Rightarrow> user \<Rightarrow> bool" where
  \<comment> \<open>Modelled from the spec: the schema's and the indexes' verdict on a document,
      given the other documents\<close>
  "admissible others u =
     ((role u = ''user'' \<or> role u = ''admin'') \<and>
      \<not> list_ex (\<lambda>v. username v = username u \<or> phone v = phone u) others)"

definition insert_doc :: "user \<Rightarrow> user list \<Rightarrow> exn + user list" where
  \<comment> \<open>Modelled from the spec: \<^verbatim>\<open>save()\<close> of a new document\<close>
  "insert_doc u us =
     (if list_ex (\<lambda>v. uid v = uid u) us \<or> \<not> admissible us u then Inl StoreError
      else Inr (us @ [u]))"

definition replace_doc :: "user \<Rightarrow> user list \<Rightarrow> user list" where
  \<comment> \<open>Modelled from the spec: \<^verbatim>\<open>save()\<close> of a loaded document of which only
      unconstrained paths were modified\<close>
  "replace_doc u us = map (\<lambda>v. if uid v = uid u then u else v) us"

definition findByIdAndUpdate :: "user \<Rightarrow> user list \<Rightarrow> exn + user list" where
  \<comment> \<open>Modelled from the spec: update with \<^verbatim>\<open>runValidators\<close>; the document carries
      the id and the updated data\<close>
  "findByIdAndUpdate u us =
     (if \<not> admissible (filter (\<lambda>v. uid v \<noteq> uid u) us) u then Inl StoreError
      else Inr (replace_doc u us))"

definition findByIdAndDelete :: "string option \<Rightarrow> user list \<Rightarrow> user list" where
  \<comment> \<open>Modelled from the spec: delete by id\<close>
  "findByIdAndDelete i us = filter (\<lambda>v. Some (uid v) \<noteq> i) us"

definition select_no_password :: "user \<Rightarrow> user" where
  \<comment> \<open>\<^verbatim>\<open>select("-password")\<close>, and \<^verbatim>\<open>toObject()\<close> followed by \<^verbatim>\<open>delete .password\<close>\<close>
  "select_no_password u = u\<lparr>password := None\<rparr>"

record outcome =
  now_ms :: nat
  new_id :: string
  salt :: string
  random_phone :: nat
  random_password :: string
  rate_limited :: bool
  upload_result :: "string option"
  destroy_fails :: bool

text \<open>
  What the surroundings answer during one request: \<^verbatim>\<open>Date.now()\<close>, the id Mongoose
  gives a new document, the salt bcrypt draws,
  \<^verbatim>\<open>Math.floor(1000000 + Math.random() * 9000000)\<close>,
  \<^verbatim>\<open>Math.random().toString(36).slice(-8)\<close>, the verdict of the rate limiter
  (\<^verbatim>\<open>authLimiter\<close>), the \<^verbatim>\<open>secure_url\<close> of a Cloudinary upload or its failure, and
  whether \<^verbatim>\<open>cloudinary.uploader.destroy\<close> throws.
\<close>

definition clock :: "outcome \<Rightarrow> nat" where
  \<comment> \<open>the time in seconds, as the token library reads it\<close>
  "clock oc = now_ms oc div 1000"

section \<open>middlewares/validate.js and middlewares/authRateLimit.js\<close>

text \<open>
  The Joi package is not among the sources; the schemas are. A schema is read rule by
  rule: a required key that is absent, an empty string, and each rule that fails
  contribute one entry, all of them being collected (\<^verbatim>\<open>abortEarly: false\<close>). An entry
  is \<^term>\<open>Joi key code\<close> for a message the package words itself, and
  \<^term>\<open>Message m\<close> for a message the schema gives.
\<close>

definition phone_prefix :: "string \<Rightarrow> bool" where
  \<comment> \<open>\<^verbatim>\<open>(0|\+?\d{1,3})\<close>\<close>
  "phone_prefix p =
     (p = ''0'' \<or>
      (let d = (if take 1 p = ''+'' then drop 1 p else p)
       in 1 \<le> length d \<and> length d \<le> 3 \<and> list_all is_digit d))"

definition phone_pattern :: "string \<Rightarrow> bool" where
  \<comment> \<open>\<^verbatim>\<open>/^(0|\+?\d{1,3})[0-9]{9,14}$/\<close>\<close>
  "phone_pattern s =
     list_ex (\<lambda>k. phone_prefix (take k s) \<and>
                  (let r = drop k s in 9 \<le> length r \<and> length r \<le> 14 \<and> list_all is_digit r))
       [1, 2, 3, 4]"

definition password_pattern :: "string \<Rightarrow> bool" where
  \<comment> \<open>\<^verbatim>\<open>/^(?=.*[A-Z])(?=.*[a-z])(?=.*\d).+$/\<close>\<close>
  "password_pattern s =
     (s \<noteq> [] \<and> \<not> list_ex is_line_end s \<and>
      list_ex is_upper s \<and> list_ex is_lower s \<and> list_ex is_digit s)"

definition joi_string ::
  "string \<Rightarrow> bool \<Rightarrow> (string \<Rightarrow> detail list) \<Rightarrow> string option \<Rightarrow> detail list" where
  \<comment> \<open>\<^verbatim>\<open>Joi.string()...required()\<close>: key, whether \<^verbatim>\<open>trim()\<close> is set, the rules\<close>
  "joi_string key trimmed rules v =
     (case v of
        None \<Rightarrow> [Joi key ''any.required'']
      | Some s \<Rightarrow>
          (let x = (if trimmed then trim s else s)
           in if x = [] then [Joi key ''string.empty''] else rules x))"

definition joi_min :: "string \<Rightarrow> nat \<Rightarrow> string \<Rightarrow> detail list" where
  "joi_min key n x = (if length x < n then [Joi key ''string.min''] else [])"

definition joi_max :: "string \<Rightarrow> nat \<Rightarrow> string \<Rightarrow> detail list" where
  "joi_max key n x = (if n < length x then [Joi key ''string.max''] else [])"

definition joi_alphanum :: "string \<Rightarrow> string \<Rightarrow> detail list" where
  "joi_alphanum key x = (if list_all is_alnum x then [] else [Joi key ''string.alphanum''])"

definition joi_phone :: "string \<Rightarrow> string \<Rightarrow> detail list" where
  "joi_phone key x = (if phone_pattern x then [] else [Joi key ''string.pattern.base''])"

definition username_details :: "req \<Rightarrow> detail list" where
  \<comment> \<open>\<^verbatim>\<open>Joi.string().trim().alphanum().min(3).max(30).required()\<close>\<close>
  "username_details r =
     joi_string ''username'' True
       (\<lambda>x. joi_alphanum ''username'' x @ joi_min ''username'' 3 x @ joi_max ''username'' 30 x)
       (body_username r)"

definition phone_details :: "req \<Rightarrow> detail list" where
  \<comment> \<open>\<^verbatim>\<open>Joi.string().pattern(...).required()\<close>\<close>
  "phone_details r = joi_string ''phone'' False (joi_phone ''phone'') (body_phone r)"

definition fullName_details :: "req \<Rightarrow> detail list" where
  \<comment> \<open>\<^verbatim>\<open>Joi.string().trim().min(3).max(100).required()\<close>\<close>
  "fullName_details r =
     joi_string ''fullName'' True
       (\<lambda>x. joi_min ''fullName'' 3 x @ joi_max ''fullName'' 100 x) (body_fullName r)"

definition password_details :: "req \<Rightarrow> detail list" where
  \<comment> \<open>\<^verbatim>\<open>Joi.string().min(8).max(64).pattern(...).message(...).required()\<close>: the
      message replaces the one of the pattern rule\<close>
  "password_details r =
     joi_string ''password'' False
       (\<lambda>x. joi_min ''password'' 8 x @ joi_max ''password'' 64 x @
            (if password_pattern x then []
             else [Message ''Mat khau phai co it nhat 1 chu hoa, 1 chu thuong va 1 so'']))
       (body_password r)"

definition confirmPassword_details :: "req \<Rightarrow> detail list" where
  \<comment> \<open>\<^verbatim>\<open>Joi.any().valid(Joi.ref("password")).required().messages(...)\<close>\<close>
  "confirmPassword_details r =
     (case body_confirmPassword r of
        None \<Rightarrow> [Joi ''confirmPassword'' ''any.required'']
      | Some c \<Rightarrow>
          (if body_password r = Some c then []
           else [Message ''Mat khau xac nhan khong khop'']))"

definition signup_details :: "req \<Rightarrow> detail list" where
  \<comment> \<open>the entries of all keys, in the order of the schema\<close>
  "signup_details r =
     username_details r @ phone_details r @ fullName_details r @ password_details r @
     confirmPassword_details r"

definition validateSignup :: "req \<Rightarrow> unit mw" where
  "validateSignup r =
     (let error = signup_details r
      in if error \<noteq> []
         then Respond ((reply 400)\<lparr>success := Some False,
                message := Some ''Du lieu dang ky khong hop le'', details := Some error\<rparr>)
         else Next ())"

definition signin_details :: "req \<Rightarrow> detail list" where
  "signin_details r =
     (case body_usernameOrPhone r of
        None \<Rightarrow> [Joi ''usernameOrPhone'' ''any.required'']
      | Some s \<Rightarrow>
          (if joi_string ''usernameOrPhone'' True
                (\<lambda>x. joi_alphanum ''usernameOrPhone'' x @ joi_min ''usernameOrPhone'' 3 x @
                     joi_max ''usernameOrPhone'' 30 x) (Some s) = []
              \<or> joi_string ''usernameOrPhone'' False (joi_phone ''usernameOrPhone'') (Some s) = []
           then [] else [Joi ''usernameOrPhone'' ''alternatives.match''])) @
     joi_string ''password'' False
       (\<lambda>x. joi_min ''password'' 6 x @ joi_max ''password'' 64 x) (body_password r)"

definition validateSignin :: "req \<Rightarrow> unit mw" where
  "validateSignin r =
     (let error = signin_details r
      in if error \<noteq> []
         then Respond ((reply 400)\<lparr>success := Some False,
                message := Some ''Du lieu dang nhap khong hop le'', details := Some error\<rparr>)
         else Next ())"

definition authLimiter :: "outcome \<Rightarrow> unit mw" where
  \<comment> \<open>express-rate-limit answers 429 with the configured message once the limit is hit\<close>
  "authLimiter oc =
     (if rate_limited oc
      then Respond ((reply 429)\<lparr>success := Some False,
             message := Some ''Qua nhieu yeu cau dang nhap. Vui long thu lai sau 1 phut.''\<rparr>)
      else Next ())"

section \<open>The user routes\<close>

definition failure :: "nat \<Rightarrow> string \<Rightarrow> response" where
  \<comment> \<open>\<^verbatim>\<open>res.status(n).json({ success: false, message: m })\<close>\<close>
  "failure n m = (reply n)\<lparr>success := Some False, message := Some m\<rparr>"

definition failure_typed :: "nat \<Rightarrow> string \<Rightarrow> response" where
  \<comment> \<open>the same with \<^verbatim>\<open>type: "error"\<close>\<close>
  "failure_typed n m = (failure n m)\<lparr>rtype := Some ''error''\<rparr>"

definition or_str :: "string option \<Rightarrow> string \<Rightarrow> string" where
  \<comment> \<open>\<^verbatim>\<open>a || b\<close> where \<^verbatim>\<open>b\<close> is a string\<close>
  "or_str a b = (case a of Some s \<Rightarrow> (if s \<noteq> [] then s else b) | None \<Rightarrow> b)"

definition objectId_shape :: "string \<Rightarrow> bool" where
  \<comment> \<open>\<^verbatim>\<open>/^[0-9a-fA-F]{24}$/\<close>\<close>
  "objectId_shape s = (length s = 24 \<and> list_all is_hex s)"

definition isPhone :: "string \<Rightarrow> bool" where
  \<comment> \<open>\<^verbatim>\<open>/^[0-9]{10,15}$/\<close>\<close>
  "isPhone s = (10 \<le> length s \<and> length s \<le> 15 \<and> list_all is_digit s)"

subsection \<open>GET /users\<close>

definition getUsers :: "env \<Rightarrow> outcome \<Rightarrow> state \<Rightarrow> req \<Rightarrow> state \<times> response" where
  "getUsers e oc st r =
     (case protected e (clock oc) r of
        Respond res \<Rightarrow> (st, res)
      | Next decoded \<Rightarrow>
          (let page = (case query_page r of None \<Rightarrow> 1 | Some p \<Rightarrow> (if p = 0 then 1 else p));
               perPage = 12
           in if page < 1 then (st, failure 400 ''Invalid page number'')
              else
                (let totalUsers = length (users st);
                     totalPages = (totalUsers + perPage - 1) div perPage
                 in if int totalPages < page then (st, failure 404 ''Page not found'')
                    else
                      (let userList = map select_no_password
                             (take perPage (drop (nat (page - 1) * perPage) (users st)))
                       in if length userList = 0
                          then (st, (reply 200)\<lparr>success := Some True,
                                  message := Some ''No users available''\<rparr>)
                          else (st, (reply 200)\<lparr>success := Some True,
                                  res_users := Some userList,
                                  res_paging := Some \<lparr>totalPages = totalPages,
                                    currentPage = page, totalItems = totalUsers,
                                    perPage = perPage\<rparr>\<rparr>)))))"

subsection \<open>GET /:id\<close>

definition getUserById :: "env \<Rightarrow> outcome \<Rightarrow> state \<Rightarrow> req \<Rightarrow> state \<times> response" where
  \<comment> \<open>the route mounts no middleware\<close>
  "getUserById e oc st r =
     (case params_id r of
        None \<Rightarrow> (st, handleError TypeError)
      | Some id' \<Rightarrow>
          if \<not> objectId_shape id' then (st, failure 400 ''ID khong hop le.'')
          else (case findById (Some id') (users st) of
                  None \<Rightarrow> (st, failure 404 ''Khong tim thay nguoi dung.'')
                | Some u \<Rightarrow>
                    (st, (reply 200)\<lparr>success := Some True,
                       message := Some ''Lay thong tin nguoi dung thanh cong.'',
                       res_user := Some (select_no_password u)\<rparr>)))"

subsection \<open>DELETE /:id\<close>

definition deleteUser :: "env \<Rightarrow> outcome \<Rightarrow> state \<Rightarrow> req \<Rightarrow> state \<times> response" where
  "deleteUser e oc st r =
     (case protected e (clock oc) r of
        Respond res \<Rightarrow> (st, res)
      | Next decoded \<Rightarrow>
          (case findById (params_id r) (users st) of
             None \<Rightarrow> (st, failure 404 ''Nguoi dung khong ton tai.'')
           | Some u \<Rightarrow>
               if truthy (avatar u) \<and> destroy_fails oc
               then (st, (failure 500 ''Internal server error.'')\<lparr>error := Some CloudinaryError\<rparr>)
               else (st\<lparr>users := findByIdAndDelete (params_id r) (users st)\<rparr>,
                     (reply 200)\<lparr>success := Some True,
                       message := Some ''Nguoi dung da duoc xoa thanh cong.''\<rparr>)))"

subsection \<open>POST /signup\<close>

fun checkRequiredFields :: "(string \<times> string option) list \<Rightarrow> string option" where
  "checkRequiredFields [] = None"
| "checkRequiredFields ((key, v) # rest) =
     (if \<not> truthy v then Some (key @ '' la bat buoc.'') else checkRequiredFields rest)"

definition signup_handler :: "env \<Rightarrow> outcome \<Rightarrow> state \<Rightarrow> req \<Rightarrow> state \<times> response" where
  "signup_handler e oc st r =
     (case checkRequiredFields
             [(''username'', body_username r), (''phone'', body_phone r),
              (''password'', body_password r), (''fullName'', body_fullName r),
              (''confirmPassword'', body_confirmPassword r)] of
        Some missingField \<Rightarrow> (st, failure_typed 400 missingField)
      | None \<Rightarrow>
          (let username' = the (body_username r); phone' = the (body_phone r);
               password' = the (body_password r); fullName' = the (body_fullName r)
           in if body_password r \<noteq> body_confirmPassword r
              then (st, failure_typed 400 ''Mat khau va xac nhan mat khau khong khop.'')
              else if \<not> isMobilePhone e phone'
              then (st, failure_typed 400 ''So dien thoai khong hop le.'')
              else
                (let passwordErrors = isValidPassword password'
                 in if 0 < length passwordErrors
                    then (st, (failure 400 ''Mat khau khong hop le.'')
                                \<lparr>errors := Some passwordErrors, rtype := Some ''error''\<rparr>)
                    else if findOne (\<lambda>v. username v = username') (users st) \<noteq> None
                    then (st, failure_typed 400 ''Ten nguoi dung da ton tai.'')
                    else if findOne (\<lambda>v. username v = username' \<or> phone v = phone')
                              (users st) \<noteq> None
                    then (st, failure_typed 400 ''So dien thoai da ton tai.'')
                    else
                      (let hashedPassword = hashPassword (salt oc) password';
                           tempEmail = ''temp_'' @ show_nat (now_ms oc) @ ''@example.com'';
                           newUser = \<lparr>uid = new_id oc, username = username', phone = phone',
                             password = Some hashedPassword, fullName = fullName',
                             email = Some tempEmail, role = ''user'',
                             isActive = defaultIsActive e, rememberMe = None, avatar = None\<rparr>
                       in case insert_doc newUser (users st) of
                            Inl ex \<Rightarrow> (st, handleError ex)
                          | Inr us \<Rightarrow>
                              (let sanitizedUser = select_no_password newUser
                               in case generateToken e (clock oc) newUser of
                                    Inl ex \<Rightarrow> (st\<lparr>users := us\<rparr>, handleError ex)
                                  | Inr token \<Rightarrow>
                                      (st\<lparr>users := us\<rparr>,
                                       (reply 201)\<lparr>message := Some ''Dang ky thanh cong'',
                                         res_user := Some sanitizedUser,
                                         res_token := Some token,
                                         cookies := [SetCookie ''token'' token
                                                       (session_opts e)]\<rparr>))))))"

text \<open>
  Once \<^const>\<open>checkRequiredFields\<close> has returned null each of the five fields is a
  non-empty string, which is what \<^term>\<open>the\<close> reads.
\<close>

definition signup :: "env \<Rightarrow> outcome \<Rightarrow> state \<Rightarrow> req \<Rightarrow> state \<times> response" where
  \<comment> \<open>the chain \<^verbatim>\<open>authLimiter, validateSignup\<close>, then the handler\<close>
  "signup e oc st r =
     (case authLimiter oc of
        Respond res \<Rightarrow> (st, res)
      | Next _ \<Rightarrow>
          (case validateSignup r of
             Respond res \<Rightarrow> (st, res)
           | Next _ \<Rightarrow> signup_handler e oc st r))"

subsection \<open>POST /signin and POST /authentication/signin\<close>

definition signin_lookup :: "state \<Rightarrow> string \<Rightarrow> user option" where
  \<comment> \<open>\<^verbatim>\<open>findOne(isPhone ? { phone } : { username })\<close>\<close>
  "signin_lookup st usernameOrPhone =
     (if isPhone usernameOrPhone
      then findOne (\<lambda>v. phone v = usernameOrPhone) (users st)
      else findOne (\<lambda>v. username v = usernameOrPhone) (users st))"

definition session_reply :: "env \<Rightarrow> user \<Rightarrow> token \<Rightarrow> response" where
  \<comment> \<open>cookie and body of a successful sign-in\<close>
  "session_reply e u token =
     (reply 200)\<lparr>success := Some True, message := Some ''Dang nhap thanh cong.'',
       res_user := Some (select_no_password u), res_token := Some token,
       cookies := [SetCookie ''token'' token (session_opts e)]\<rparr>"

definition signin_handler :: "env \<Rightarrow> outcome \<Rightarrow> state \<Rightarrow> req \<Rightarrow> state \<times> response" where
  "signin_handler e oc st r =
     (if \<not> truthy (body_usernameOrPhone r)
      then (st, failure 400 ''Ten dang nhap hoac so dien thoai la bat buoc.'')
      else if \<not> truthy (body_password r)
      then (st, failure 400 ''Mat khau la bat buoc.'')
      else
        (case signin_lookup st (the (body_usernameOrPhone r)) of
           None \<Rightarrow>
             (st, failure 400 ''Ten dang nhap, so dien thoai hoac mat khau khong dung.'')
         | Some u \<Rightarrow>
             (case password u of
                None \<Rightarrow> (st, handleError BcryptError)
              | Some hashed \<Rightarrow>
                  if \<not> checkPassword (the (body_password r)) hashed
                  then (st, failure 400
                              ''Ten dang nhap, so dien thoai hoac mat khau khong dung.'')
                  else if \<not> isActive u
                  then (st, failure 403 ''Tai khoan cua ban da bi vo hieu hoa.'')
                  else (case generateToken e (clock oc) u of
                          Inl ex \<Rightarrow> (st, handleError ex)
                        | Inr token \<Rightarrow> (st, session_reply e u token)))))"

definition signin :: "env \<Rightarrow> outcome \<Rightarrow> state \<Rightarrow> req \<Rightarrow> state \<times> response" where
  \<comment> \<open>the chain \<^verbatim>\<open>authLimiter, validateSignin\<close>, then the handler\<close>
  "signin e oc st r =
     (case authLimiter oc of
        Respond res \<Rightarrow> (st, res)
      | Next _ \<Rightarrow>
          (case validateSignin r of
             Respond res \<Rightarrow> (st, res)
           | Next _ \<Rightarrow> signin_handler e oc st r))"

definition adminSignin :: "env \<Rightarrow> outcome \<Rightarrow> state \<Rightarrow> req \<Rightarrow> state \<times> response" where
  "adminSignin e oc st r =
     (if \<not> truthy (body_usernameOrPhone r)
      then (st, failure 400 ''Ten dang nhap hoac so dien thoai la bat buoc.'')
      else if \<not> truthy (body_password r)
      then (st, failure 400 ''Mat khau la bat buoc.'')
      else
        (case signin_lookup st (the (body_usernameOrPhone r)) of
           None \<Rightarrow>
             (st, failure 400 ''Ten dang nhap, so dien thoai hoac mat khau khong dung.'')
         | Some u \<Rightarrow>
             (case password u of
                None \<Rightarrow> (st, handleError BcryptError)
              | Some hashed \<Rightarrow>
                  if \<not> checkPassword (the (body_password r)) hashed
                  then (st, failure 400
                              ''Ten dang nhap, so dien thoai hoac mat khau khong dung.'')
                  else if \<not> isActive u
                  then (st, failure 403 ''Tai khoan cua ban da bi vo hieu hoa.'')
                  else if role u \<noteq> ''admin''
                  then (st, failure 403 ''Ban khong co quyen truy cap (admin only).'')
                  else
                    (let u' = u\<lparr>rememberMe := body_rememberMe r\<rparr>;
                         st' = st\<lparr>users := replace_doc u' (users st)\<rparr>
                     in case generateToken e (clock oc) u' of
                          Inl ex \<Rightarrow> (st', handleError ex)
                        | Inr token \<Rightarrow> (st', session_reply e u' token)))))"

subsection \<open>POST /authWithGoogle\<close>

definition google_failure :: response where
  "google_failure = failure 500 ''Co loi xay ra. Vui long thu lai sau.''"

definition google_reply :: "env \<Rightarrow> user \<Rightarrow> token \<Rightarrow> response" where
  \<comment> \<open>\<^verbatim>\<open>isNew\<close> is false once a document is saved or was loaded, so the message is the
      sign-in one; the document goes into the body as it is\<close>
  "google_reply e u token =
     (reply 200)\<lparr>success := Some True, message := Some ''Dang nhap thanh cong.'',
       res_user := Some u, cookies := [SetCookie ''token'' token (session_opts e)]\<rparr>"

definition authWithGoogle :: "env \<Rightarrow> outcome \<Rightarrow> state \<Rightarrow> req \<Rightarrow> state \<times> response" where
  "authWithGoogle e oc st r =
     (case findOne (\<lambda>v. email v = body_email r) (users st) of
        Some existingUser \<Rightarrow>
          (case generateToken e (clock oc) existingUser of
             Inl ex \<Rightarrow> (st, google_failure)
           | Inr token \<Rightarrow> (st, google_reply e existingUser token))
      | None \<Rightarrow>
          (case body_fullName r of
             None \<Rightarrow> (st, google_failure)
           | Some fullName' \<Rightarrow>
               (let username' = toLowerCase (filter (\<lambda>c. c \<noteq> CHR '' '') fullName');
                    randomPhone = ''034'' @ show_nat (random_phone oc);
                    randomPassword = random_password oc;
                    existingUser = \<lparr>uid = new_id oc, username = ''temp_'' @ username',
                      phone = randomPhone, password = Some (Clear randomPassword),
                      fullName = fullName', email = body_email r, role = ''user'',
                      isActive = True, rememberMe = None, avatar = body_images r\<rparr>
                in case insert_doc existingUser (users st) of
                     Inl ex \<Rightarrow> (st, google_failure)
                   | Inr us \<Rightarrow>
                       (case generateToken e (clock oc) existingUser of
                          Inl ex \<Rightarrow> (st\<lparr>users := us\<rparr>, google_failure)
                        | Inr token \<Rightarrow>
                            (st\<lparr>users := us\<rparr>, google_reply e existingUser token)))))"

subsection \<open>PUT /:id\<close>

definition update_checks :: "env \<Rightarrow> state \<Rightarrow> req \<Rightarrow> string \<Rightarrow> user \<Rightarrow> response option" where
  \<comment> \<open>the validations between the lookup of the user and the update, in their order:
      the response of the first that fails\<close>
  "update_checks e st r id' u =
     (if truthy (body_username r) \<and> body_username r \<noteq> Some (username u) \<and>
         findOne (\<lambda>v. Some (username v) = body_username r) (users st) \<noteq> None
      then Some (failure 400 ''Username da ton tai. Vui long chon ten khac.'')
      else if truthy (body_phone r) \<and> body_phone r \<noteq> Some (phone u) \<and>
         (case findOne (\<lambda>v. Some (phone v) = body_phone r) (users st) of
            None \<Rightarrow> False
          | Some existingUser \<Rightarrow> uid existingUser \<noteq> id')
      then Some (failure 400 ''So dien thoai da ton tai. Vui long chon so khac.'')
      else if truthy (body_email r) \<and> \<not> isEmail e (the (body_email r))
      then Some (failure 400 ''Email khong hop le.'')
      else if truthy (body_phone r) \<and> \<not> isMobilePhone e (the (body_phone r))
      then Some (failure 400 ''So dien thoai khong hop le.'')
      else if truthy (body_password r) \<and>
              \<not> array_truthy (isValidPassword (the (body_password r)))
      then Some (failure 400 ''Mat khau khong hop le.'')
      else None)"

definition updatedData :: "user \<Rightarrow> req \<Rightarrow> pw option \<Rightarrow> string option \<Rightarrow> user" where
  \<comment> \<open>the user found, the request, \<^verbatim>\<open>hashedPassword\<close> and \<^verbatim>\<open>updatedAvatar\<close>\<close>
  "updatedData u r hashedPassword updatedAvatar =
     u\<lparr>username := or_str (body_username r) (username u),
       email := (if truthy (body_email r) then body_email r else email u),
       phone := or_str (body_phone r) (phone u),
       fullName := or_str (body_fullName r) (fullName u),
       role := or_str (body_role r) (role u),
       isActive := (case body_isActive r of None \<Rightarrow> isActive u | Some b \<Rightarrow> b),
       avatar := updatedAvatar,
       password := (case hashedPassword of Some h \<Rightarrow> Some h | None \<Rightarrow> password u)\<rparr>"

definition updateUser :: "env \<Rightarrow> outcome \<Rightarrow> state \<Rightarrow> req \<Rightarrow> state \<times> response" where
  "updateUser e oc st r =
     (case protected e (clock oc) r of
        Respond res \<Rightarrow> (st, res)
      | Next decoded \<Rightarrow>
          (case params_id r of
             None \<Rightarrow> (st, failure 400 ''ID khong hop le.'')
           | Some id' \<Rightarrow>
               if \<not> objectIdIsValid e id' then (st, failure 400 ''ID khong hop le.'')
               else
                 (case findById (Some id') (users st) of
                    None \<Rightarrow> (st, failure 404 ''Khong tim thay nguoi dung.'')
                  | Some u \<Rightarrow>
                      (case update_checks e st r id' u of
                         Some res \<Rightarrow> (st, res)
                       | None \<Rightarrow>
                           (let hashedPassword =
                                  (if truthy (body_password r)
                                   then Some (hashPassword (salt oc) (the (body_password r)))
                                   else None)
                            in if file_path r \<noteq> None \<and> upload_result oc = None
                               then (st, (failure 500 ''Khong the tai len anh avatar.'')
                                           \<lparr>error := Some CloudinaryError\<rparr>)
                               else
                                 (let updatedAvatar =
                                        (if file_path r \<noteq> None then upload_result oc
                                         else avatar u);
                                      updated = updatedData u r hashedPassword updatedAvatar
                                  in case findByIdAndUpdate updated (users st) of
                                       Inl ex \<Rightarrow> (st, handleError ex)
                                     | Inr us \<Rightarrow>
                                         (st\<lparr>users := us\<rparr>,
                                          (reply 200)\<lparr>success := Some True,
                                            message := Some
                                              ''Cap nhat thong tin nguoi dung thanh cong.'',
                                            res_user :=
                                              Some (select_no_password updated)\<rparr>)))))))"

subsection \<open>PUT /change-password/:id\<close>

definition changePassword :: "env \<Rightarrow> outcome \<Rightarrow> state \<Rightarrow> req \<Rightarrow> state \<times> response" where
  "changePassword e oc st r =
     (case protected e (clock oc) r of
        Respond res \<Rightarrow> (st, res)
      | Next decoded \<Rightarrow>
          if \<not> truthy (body_currentPassword r)
          then (st, failure 400 ''Mat khau hien tai la bat buoc.'')
          else if \<not> truthy (body_newPassword r)
          then (st, failure 400 ''Mat khau moi la bat buoc.'')
          else
            (case findById (params_id r) (users st) of
               None \<Rightarrow> (st, failure 404 ''Khong tim thay nguoi dung.'')
             | Some u \<Rightarrow>
                 (case password u of
                    None \<Rightarrow> (st, failure 500 ''Loi khi thay doi mat khau.'')
                  | Some hashed \<Rightarrow>
                      (let isCurrentPasswordCorrect =
                             bcrypt_compare (the (body_currentPassword r)) hashed
                       in if \<not> isCurrentPasswordCorrect
                          then (st, failure 400 ''Mat khau hien tai khong dung.'')
                          else if \<not> array_truthy (isValidPassword (the (body_newPassword r)))
                          then (st, failure 400 ''Mat khau moi khong hop le.'')
                          else
                            (let hashedNewPassword =
                                   bcrypt_hash (salt oc) (the (body_newPassword r));
                                 u' = u\<lparr>password := Some hashedNewPassword\<rparr>
                             in (st\<lparr>users := replace_doc u' (users st)\<rparr>,
                                 (reply 200)\<lparr>success := Some True,
                                   message := Some
                                     ''Mat khau da duoc thay doi thanh cong.''\<rparr>))))))"

subsection \<open>DELETE /delete-user/:id and POST /signout\<close>

definition deleteUserAndOrders ::
  "env \<Rightarrow> outcome \<Rightarrow> state \<Rightarrow> req \<Rightarrow> state \<times> response" where
  "deleteUserAndOrders e oc st r =
     (case protected e (clock oc) r of
        Respond res \<Rightarrow> (st, res)
      | Next decoded \<Rightarrow>
          (case findById (params_id r) (users st) of
             None \<Rightarrow> (st, failure 404 ''Nguoi dung khong ton tai.'')
           | Some u \<Rightarrow>
               (let st1 = st\<lparr>orders := filter (\<lambda>userId. Some userId \<noteq> params_id r)
                                           (orders st)\<rparr>
                in if truthy (avatar u) \<and> destroy_fails oc
                   then (st1, failure 500 ''Khong the xoa anh avatar tren Cloudinary.'')
                   else (st1\<lparr>users := findByIdAndDelete (params_id r) (users st)\<rparr>,
                         (reply 200)\<lparr>success := Some True,
                           message := Some
                  ''Nguoi dung va cac don hang lien quan da duoc xoa thanh cong.''\<rparr>))))"

definition signout :: "env \<Rightarrow> outcome \<Rightarrow> state \<Rightarrow> req \<Rightarrow> state \<times> response" where
  "signout e oc st r =
     (st, (reply 200)\<lparr>success := Some True, message := Some ''Dang xuat thanh cong'',
            cookies := [ClearCookie ''token'' (clear_opts e)]\<rparr>)"

subsection \<open>The router\<close>

datatype route =
    GET_users | GET_id | DELETE_id | POST_signup | POST_signin
  | POST_authentication_signin | POST_authWithGoogle | PUT_id
  | PUT_change_password_id | DELETE_delete_user_id | POST_signout

fun dispatch :: "route \<Rightarrow> env \<Rightarrow> outcome \<Rightarrow> state \<Rightarrow> req \<Rightarrow> state \<times> response" where
  "dispatch GET_users = getUsers"
| "dispatch GET_id = getUserById"
| "dispatch DELETE_id = deleteUser"
| "dispatch POST_signup = signup"
| "dispatch POST_signin = signin"
| "dispatch POST_authentication_signin = adminSignin"
| "dispatch POST_authWithGoogle = authWithGoogle"
| "dispatch PUT_id = updateUser"
| "dispatch PUT_change_password_id = changePassword"
| "dispatch DELETE_delete_user_id = deleteUserAndOrders"
| "dispatch POST_signout = signout"

type_synonym call = "route \<times> outcome \<times> req"

fun step :: "env \<Rightarrow> state \<Rightarrow> call \<Rightarrow> state" where
  "step e st (rt, oc, r) = fst (dispatch rt e oc st r)"

definition run :: "env \<Rightarrow> state \<Rightarrow> call list \<Rightarrow> state" where
  \<comment> \<open>the store after a sequence of requests, handled one after the other\<close>
  "run e st calls = foldl (step e) st calls"

section \<open>Example values\<close>

definition example_env :: env where
  "example_env = \<lparr>JWT_SECRET = ''s3cret'', TOKEN_EXPIRATION = None, NODE_ENV = None,
     isMobilePhone = (\<lambda>p. True), isEmail = (\<lambda>m. True), objectIdIsValid = objectId_shape,
     defaultIsActive = True\<rparr>"

definition example_outcome :: outcome where
  "example_outcome = \<lparr>now_ms = 5000, new_id = ''65f0c0ffee65f0c0ffee0003'',
     salt = ''N9qo8uLOickgx2ZMRZoMye'', random_phone = 1234567,
     random_password = ''k3x9q2ab'', rate_limited = False, upload_result = None,
     destroy_fails = False\<rparr>"

definition blank_req :: req where
  "blank_req = \<lparr>cookies_token = None, authorization = None, params_id = None,
     query_page = None, file_path = None, body_username = None, body_phone = None,
     body_password = None, body_fullName = None, body_confirmPassword = None,
     body_usernameOrPhone = None, body_email = None, body_images = None, body_role = None,
     body_currentPassword = None, body_newPassword = None, body_rememberMe = None,
     body_isActive = None\<rparr>"

definition bob_claims :: claims where
  "bob_claims = \<lparr>userIdFromToken = ''65f0c0ffee65f0c0ffee0002'', usernameFromToken = ''bob'',
     userRoleFromToken = ''user''\<rparr>"

definition alice :: user where
  "alice = \<lparr>uid = ''65f0c0ffee65f0c0ffee0001'', username = ''alice'', phone = ''0912345678'',
     password = Some (Digest ''salt-a'' ''Str0ng!Pass''), fullName = ''Alice Admin'',
     email = Some ''alice@example.com'', role = ''admin'', isActive = True,
     rememberMe = Some True, avatar = None\<rparr>"

definition bob :: user where
  "bob = \<lparr>uid = ''65f0c0ffee65f0c0ffee0002'', username = ''bob'', phone = ''0987654321'',
     password = Some (Digest ''salt-b'' ''OldPass1!''), fullName = ''Bob Buyer'',
     email = Some ''bob@example.com'', role = ''user'', isActive = True,
     rememberMe = None, avatar = None\<rparr>"

definition example_state :: state where
  "example_state = \<lparr>users = [alice, bob], orders = []\<rparr>"

definition signin_req :: "string \<Rightarrow> string \<Rightarrow> req" where
  "signin_req who pass =
     blank_req\<lparr>body_usernameOrPhone := Some who, body_password := Some pass\<rparr>"

definition bob_session :: req where
  \<comment> \<open>a request of bob's on his own id, carrying his valid session cookie\<close>
  "bob_session = blank_req\<lparr>cookies_token := Some (Jwt bob_claims 3605 ''s3cret''),
     params_id := Some ''65f0c0ffee65f0c0ffee0002''\<rparr>"

definition weak_change_req :: req where
  "weak_change_req = bob_session\<lparr>body_currentPassword := Some ''OldPass1!'',
     body_newPassword := Some ''a''\<rparr>"

definition google_req :: "string \<Rightarrow> string \<Rightarrow> req" where
  "google_req name mail = blank_req\<lparr>body_fullName := Some name, body_email := Some mail\<rparr>"

definition signup_req :: "string \<Rightarrow> req" where
  \<comment> \<open>a sign-up request whose fields other than the password are valid\<close>
  "signup_req pass = blank_req\<lparr>body_username := Some ''carol1'',
     body_phone := Some ''0912345679'', body_fullName := Some ''Carol Client'',
     body_password := Some pass, body_confirmPassword := Some pass\<rparr>"

definition self_promote_req :: req where
  \<comment> \<open>bob, a plain user, updates his own profile and asks for the role admin\<close>
  "self_promote_req = bob_session\<lparr>body_role := Some ''admin''\<rparr>"

definition demote_alice_req :: req where
  \<comment> \<open>bob, with his own session, addresses alice's id and asks for the role user\<close>
  "demote_alice_req = blank_req\<lparr>cookies_token := Some (Jwt bob_claims 3605 ''s3cret''),
     params_id := Some ''65f0c0ffee65f0c0ffee0001'', body_role := Some ''user''\<rparr>"

section \<open>Notions used in the properties\<close>

definition requester :: "env \<Rightarrow> call \<Rightarrow> claims option" where
  \<comment> \<open>the claims the authenticator decodes from a request, if it carries a valid token\<close>
  "requester e call =
     (case call of (rt, oc, r) \<Rightarrow>
        (case verifyToken e (clock oc) r of Next decoded \<Rightarrow> Some decoded | Respond res \<Rightarrow> None))"

definition privileged :: "env \<Rightarrow> string \<Rightarrow> call \<Rightarrow> bool" where
  \<comment> \<open>the request carries the claims of an admin, or of the identity with the given id\<close>
  "privileged e i call =
     (case requester e call of
        None \<Rightarrow> False
      | Some c \<Rightarrow> userRoleFromToken c = ''admin'' \<or> userIdFromToken c = i)"

definition role_of :: "state \<Rightarrow> string \<Rightarrow> string option" where
  \<comment> \<open>the role of the stored identity with the given id, if there is one\<close>
  "role_of st i = map_option role (findById (Some i) (users st))"

definition harmless :: "string \<Rightarrow> user list \<Rightarrow> user list \<Rightarrow> bool" where
  \<comment> \<open>the changes of the collection that leave the identity with the given id in place,
      with its role: none, a new document under a fresh id, a document replaced by one of
      the same id that has the same role or another id than the given one, the document of
      another id deleted\<close>
  "harmless i us us' =
     (us' = us \<or>
      (\<exists>d. uid d \<notin> set (map uid us) \<and> us' = us @ [d]) \<or>
      (\<exists>d u. u \<in> set us \<and> uid d = uid u \<and> (role d = role u \<or> uid d \<noteq> i) \<and>
             us' = replace_doc d us) \<or>
      (\<exists>j. j \<noteq> Some i \<and> us' = findByIdAndDelete j us))"

section \<open>Properties\<close>

subsection \<open>Authorization policy\<close>

text \<open>
  Claim C1. For every claims object and every target owner id (the route's
  \<^verbatim>\<open>:id\<close> parameter), the admin-or-owner check calls the next handler if and only if
  the role in the claims is \<^verbatim>\<open>admin\<close> or the id in the claims equals the target id;
  in every other case it responds, and the response has status 403. The claims are
  those of a token this server issued: id, username and role of an identity, strings
  all three.
\<close>

theorem checkAdminOrOwner_allows_iff:
  "((checkAdminOrOwner c (Some t) = Next ()) =
      (userRoleFromToken c = ''admin'' \<or> userIdFromToken c = t)) \<and>
   (checkAdminOrOwner c (Some t) = Next () \<or>
      (\<exists>res. checkAdminOrOwner c (Some t) = Respond res \<and> status res = 403))"
  by (simp add: checkAdminOrOwner_def reply_def)

subsection \<open>Token issuance\<close>

lemma ms_7d: "ms ''7d'' = Some 604800000"
  by (simp add: ms_def is_digit_def digit_chars_def nat_of_digits_def digit_val_def)

lemma ms_1h: "ms ''1h'' = Some 3600000"
  by (simp add: ms_def is_digit_def digit_chars_def nat_of_digits_def digit_val_def)

text \<open>
  Claim C5. The token issued for an identity expires 7 days (604800 seconds) after
  issuance when the identity's \<^verbatim>\<open>rememberMe\<close> flag is true; otherwise it expires after
  the configured window, which is 1 hour (3600 seconds) when \<^verbatim>\<open>TOKEN_EXPIRATION\<close> is
  not set (or empty), and the span the configured string names when it is set.
  Consequently a \<^verbatim>\<open>rememberMe\<close> token verifies at 6 days, and at any time it verifies
  exactly when fewer than 7 days have passed, being rejected as expired from then on.
\<close>

theorem generateToken_expiry:
  "(rememberMe u = Some True \<longrightarrow>
      generateToken e now u =
        Inr (Jwt \<lparr>userIdFromToken = uid u, usernameFromToken = username u,
                  userRoleFromToken = role u\<rparr> (now + 604800) (JWT_SECRET e))) \<and>
   (rememberMe u \<noteq> Some True \<and> \<not> truthy (TOKEN_EXPIRATION e) \<longrightarrow>
      generateToken e now u =
        Inr (Jwt \<lparr>userIdFromToken = uid u, usernameFromToken = username u,
                  userRoleFromToken = role u\<rparr> (now + 3600) (JWT_SECRET e))) \<and>
   (rememberMe u \<noteq> Some True \<and> TOKEN_EXPIRATION e = Some s \<and> s \<noteq> [] \<and> ms s = Some span \<longrightarrow>
      generateToken e now u =
        Inr (Jwt \<lparr>userIdFromToken = uid u, usernameFromToken = username u,
                  userRoleFromToken = role u\<rparr> (now + span div 1000) (JWT_SECRET e))) \<and>
   (rememberMe u = Some True \<and> generateToken e now u = Inr tok \<longrightarrow>
      jwt_verify tok (JWT_SECRET e) (now + 6 * 86400) =
        Inr \<lparr>userIdFromToken = uid u, usernameFromToken = username u,
             userRoleFromToken = role u\<rparr> \<and>
      (\<forall>t. jwt_verify tok (JWT_SECRET e) t =
             (if t < now + 7 * 86400
              then Inr \<lparr>userIdFromToken = uid u, usernameFromToken = username u,
                        userRoleFromToken = role u\<rparr>
              else Inl Expired)))"
  by (auto simp: generateToken_def jwt_sign_def ms_7d ms_1h truthy_def split: option.splits)

theorem generateToken_expiry_witness:
  "generateToken example_env 5 alice =
     Inr (Jwt \<lparr>userIdFromToken = ''65f0c0ffee65f0c0ffee0001'', usernameFromToken = ''alice'',
               userRoleFromToken = ''admin''\<rparr> 604805 ''s3cret'') \<and>
   jwt_verify (Jwt \<lparr>userIdFromToken = ''65f0c0ffee65f0c0ffee0001'',
                   usernameFromToken = ''alice'', userRoleFromToken = ''admin''\<rparr>
                 604805 ''s3cret'') ''s3cret'' 518405 =
     Inr \<lparr>userIdFromToken = ''65f0c0ffee65f0c0ffee0001'', usernameFromToken = ''alice'',
          userRoleFromToken = ''admin''\<rparr> \<and>
   jwt_verify (Jwt \<lparr>userIdFromToken = ''65f0c0ffee65f0c0ffee0001'',
                   usernameFromToken = ''alice'', userRoleFromToken = ''admin''\<rparr>
                 604805 ''s3cret'') ''s3cret'' 604805 = Inl Expired \<and>
   generateToken example_env 5 bob =
     Inr (Jwt \<lparr>userIdFromToken = ''65f0c0ffee65f0c0ffee0002'', usernameFromToken = ''bob'',
               userRoleFromToken = ''user''\<rparr> 3605 ''s3cret'') \<and>
   generateToken (example_env\<lparr>TOKEN_EXPIRATION := Some ''7d''\<rparr>) 5 bob =
     Inr (Jwt \<lparr>userIdFromToken = ''65f0c0ffee65f0c0ffee0002'', usernameFromToken = ''bob'',
               userRoleFromToken = ''user''\<rparr> 604805 ''s3cret'')"
proof -
  let ?a = "\<lparr>userIdFromToken = ''65f0c0ffee65f0c0ffee0001'', usernameFromToken = ''alice'',
               userRoleFromToken = ''admin''\<rparr>"
  let ?tok = "Jwt ?a 604805 ''s3cret''"
  let ?e' = "example_env\<lparr>TOKEN_EXPIRATION := Some ''7d''\<rparr>"
  have ra: "rememberMe alice = Some True"
    by (simp add: alice_def)
  have g: "generateToken example_env 5 alice = Inr ?tok"
    using generateToken_expiry [of alice example_env 5, THEN conjunct1, rule_format, OF ra]
    by (simp add: alice_def example_env_def)
  have v: "jwt_verify ?tok (JWT_SECRET example_env) (5 + 6 * 86400) = Inr ?a \<and>
      (\<forall>t. jwt_verify ?tok (JWT_SECRET example_env) t =
             (if t < 5 + 7 * 86400 then Inr ?a else Inl Expired))"
    using generateToken_expiry [of alice example_env 5 _ _ ?tok, THEN conjunct2, THEN conjunct2,
        THEN conjunct2, rule_format, OF conjI [OF ra g]]
    by (simp add: alice_def)
  have v6: "jwt_verify ?tok ''s3cret'' 518405 = Inr ?a"
    using v by (simp add: example_env_def)
  have v7: "jwt_verify ?tok ''s3cret'' 604805 = Inl Expired"
    using v [THEN conjunct2, THEN spec, of 604805] by (simp add: example_env_def)
  have rb: "rememberMe bob \<noteq> Some True \<and> \<not> truthy (TOKEN_EXPIRATION example_env)"
    by (simp add: bob_def example_env_def truthy_def)
  have gb: "generateToken example_env 5 bob =
     Inr (Jwt \<lparr>userIdFromToken = ''65f0c0ffee65f0c0ffee0002'', usernameFromToken = ''bob'',
               userRoleFromToken = ''user''\<rparr> 3605 ''s3cret'')"
    using generateToken_expiry [of bob example_env 5, THEN conjunct2, THEN conjunct1,
        rule_format, OF rb]
    by (simp add: bob_def example_env_def)
  have rc: "rememberMe bob \<noteq> Some True \<and> TOKEN_EXPIRATION ?e' = Some ''7d'' \<and> ''7d'' \<noteq> [] \<and>
      ms ''7d'' = Some 604800000"
    by (simp add: bob_def ms_7d)
  have gc: "generateToken ?e' 5 bob =
     Inr (Jwt \<lparr>userIdFromToken = ''65f0c0ffee65f0c0ffee0002'', usernameFromToken = ''bob'',
               userRoleFromToken = ''user''\<rparr> 604805 ''s3cret'')"
    using generateToken_expiry [of bob ?e' 5 "''7d''" 604800000, THEN conjunct2, THEN conjunct2,
        THEN conjunct1, rule_format, OF rc]
    by (simp add: bob_def example_env_def)
  from g v6 v7 gb gc show ?thesis by blast
qed

subsection \<open>Request authentication\<close>

text \<open>
  Claim C4. The request authenticator takes the token from the cookie named
  \<^verbatim>\<open>token\<close> when the request carries a non-empty one, and otherwise from the
  \<^verbatim>\<open>Authorization: Bearer\<close> header. If neither yields a token it responds 401 with
  the please-sign-in message. If verification of the token fails, for whatever reason
  (bad signature, expired, malformed), it clears the cookie and responds 401; that
  response does not depend on the reason. Every response of the authenticator has status
  401, and it continues, with the decoded claims attached, only when the token it took
  verifies to these claims.
\<close>

theorem verifyToken_outcomes:
  "(cookies_token r = Some t \<and> token_truthy t \<longrightarrow>
      verifyToken e now r =
        (case jwt_verify t (JWT_SECRET e) now of
           Inr decoded \<Rightarrow> Next decoded
         | Inl err \<Rightarrow> Respond ((failure 401 ''Phien dang nhap khong hop le hoac da het han!'')
                        \<lparr>cookies := [ClearCookie ''token'' (clear_opts e)]\<rparr>))) \<and>
   ((cookies_token r = None \<or> cookies_token r = Some (NotJwt [])) \<and>
    authorization r = Some [NotJwt ''Bearer'', t] \<and> token_truthy t \<longrightarrow>
      verifyToken e now r =
        (case jwt_verify t (JWT_SECRET e) now of
           Inr decoded \<Rightarrow> Next decoded
         | Inl err \<Rightarrow> Respond ((failure 401 ''Phien dang nhap khong hop le hoac da het han!'')
                        \<lparr>cookies := [ClearCookie ''token'' (clear_opts e)]\<rparr>))) \<and>
   ((cookies_token r = None \<or> cookies_token r = Some (NotJwt [])) \<and>
    (tokenFromHeader r = None \<or> tokenFromHeader r = Some (NotJwt [])) \<longrightarrow>
      verifyToken e now r = Respond (failure_typed 401 ''Vui long dang nhap!'')) \<and>
   (\<forall>res. verifyToken e now r = Respond res \<longrightarrow> status res = 401) \<and>
   (\<forall>decoded. verifyToken e now r = Next decoded \<longrightarrow>
      (\<exists>t'. token_truthy t' \<and> jwt_verify t' (JWT_SECRET e) now = Inr decoded \<and>
            (cookies_token r = Some t' \<or> tokenFromHeader r = Some t')))"
proof (intro conjI impI allI)
  assume "cookies_token r = Some t \<and> token_truthy t"
  then show "verifyToken e now r =
        (case jwt_verify t (JWT_SECRET e) now of
           Inr decoded \<Rightarrow> Next decoded
         | Inl err \<Rightarrow> Respond ((failure 401 ''Phien dang nhap khong hop le hoac da het han!'')
                        \<lparr>cookies := [ClearCookie ''token'' (clear_opts e)]\<rparr>))"
    by (simp add: verifyToken_def or_token_def failure_def split: sum.splits)
next
  assume "(cookies_token r = None \<or> cookies_token r = Some (NotJwt [])) \<and>
    authorization r = Some [NotJwt ''Bearer'', t] \<and> token_truthy t"
  then show "verifyToken e now r =
        (case jwt_verify t (JWT_SECRET e) now of
           Inr decoded \<Rightarrow> Next decoded
         | Inl err \<Rightarrow> Respond ((failure 401 ''Phien dang nhap khong hop le hoac da het han!'')
                        \<lparr>cookies := [ClearCookie ''token'' (clear_opts e)]\<rparr>))"
    by (auto simp: verifyToken_def or_token_def tokenFromHeader_def token_truthy_def
        failure_def split: sum.splits)
next
  assume "(cookies_token r = None \<or> cookies_token r = Some (NotJwt [])) \<and>
    (tokenFromHeader r = None \<or> tokenFromHeader r = Some (NotJwt []))"
  then show "verifyToken e now r = Respond (failure_typed 401 ''Vui long dang nhap!'')"
    by (auto simp: verifyToken_def or_token_def token_truthy_def failure_typed_def failure_def)
next
  fix res assume "verifyToken e now r = Respond res"
  then show "status res = 401"
    by (auto simp: verifyToken_def Let_def reply_def split: option.splits if_splits sum.splits)
next
  fix decoded assume "verifyToken e now r = Next decoded"
  then show "\<exists>t'. token_truthy t' \<and> jwt_verify t' (JWT_SECRET e) now = Inr decoded \<and>
            (cookies_token r = Some t' \<or> tokenFromHeader r = Some t')"
    by (auto simp: verifyToken_def Let_def or_token_def split: option.splits if_splits sum.splits)
qed

theorem verifyToken_outcomes_witness:
  "verifyToken example_env 5
     (blank_req\<lparr>cookies_token := Some (Jwt bob_claims 3605 ''s3cret'')\<rparr>) = Next bob_claims \<and>
   verifyToken example_env 3605
     (blank_req\<lparr>cookies_token := Some (Jwt bob_claims 3605 ''s3cret'')\<rparr>) =
     Respond ((failure 401 ''Phien dang nhap khong hop le hoac da het han!'')
                \<lparr>cookies := [ClearCookie ''token'' (clear_opts example_env)]\<rparr>) \<and>
   verifyToken example_env 5
     (blank_req\<lparr>authorization := Some [NotJwt ''Bearer'', Jwt bob_claims 3605 ''forged'']\<rparr>) =
     Respond ((failure 401 ''Phien dang nhap khong hop le hoac da het han!'')
                \<lparr>cookies := [ClearCookie ''token'' (clear_opts example_env)]\<rparr>) \<and>
   verifyToken example_env 5 blank_req = Respond (failure_typed 401 ''Vui long dang nhap!'')"
proof -
  let ?good = "Jwt bob_claims 3605 ''s3cret''"
  let ?forged = "Jwt bob_claims 3605 ''forged''"
  let ?r1 = "blank_req\<lparr>cookies_token := Some ?good\<rparr>"
  let ?r2 = "blank_req\<lparr>authorization := Some [NotJwt ''Bearer'', ?forged]\<rparr>"
  have secret: "JWT_SECRET example_env = ''s3cret''"
    by (simp add: example_env_def)
  have c1: "cookies_token ?r1 = Some ?good \<and> token_truthy ?good"
    by (simp add: token_truthy_def)
  have c2: "(cookies_token ?r2 = None \<or> cookies_token ?r2 = Some (NotJwt [])) \<and>
      authorization ?r2 = Some [NotJwt ''Bearer'', ?forged] \<and> token_truthy ?forged"
    by (simp add: token_truthy_def blank_req_def)
  have c3: "(cookies_token blank_req = None \<or> cookies_token blank_req = Some (NotJwt [])) \<and>
      (tokenFromHeader blank_req = None \<or> tokenFromHeader blank_req = Some (NotJwt []))"
    by (simp add: blank_req_def tokenFromHeader_def)
  have "verifyToken example_env 5 ?r1 = Next bob_claims"
    using verifyToken_outcomes [of ?r1 ?good example_env 5, THEN conjunct1, rule_format, OF c1]
    by (simp add: secret)
  moreover have "verifyToken example_env 3605 ?r1 =
     Respond ((failure 401 ''Phien dang nhap khong hop le hoac da het han!'')
                \<lparr>cookies := [ClearCookie ''token'' (clear_opts example_env)]\<rparr>)"
    using verifyToken_outcomes [of ?r1 ?good example_env 3605, THEN conjunct1, rule_format, OF c1]
    by (simp add: secret)
  moreover have "verifyToken example_env 5 ?r2 =
     Respond ((failure 401 ''Phien dang nhap khong hop le hoac da het han!'')
                \<lparr>cookies := [ClearCookie ''token'' (clear_opts example_env)]\<rparr>)"
    using verifyToken_outcomes [of ?r2 ?forged example_env 5, THEN conjunct2, THEN conjunct1,
        rule_format, OF c2]
    by (simp add: secret)
  moreover have "verifyToken example_env 5 blank_req =
     Respond (failure_typed 401 ''Vui long dang nhap!'')"
    using verifyToken_outcomes [of blank_req "NotJwt []" example_env 5, THEN conjunct2,
        THEN conjunct2, THEN conjunct1, rule_format, OF c3]
    by simp
  ultimately show ?thesis by blast
qed

subsection \<open>Routes without an id parameter\<close>

text \<open>
  Claim C9. On a route whose path has no \<^verbatim>\<open>:id\<close> parameter, such as GET /users,
  \<^verbatim>\<open>req.params.id\<close> is undefined, and a requester whose token role is not
  \<^verbatim>\<open>admin\<close> is denied with 403 whatever the id in the token: the id in a token is the
  string \<^verbatim>\<open>_id\<close> of the identity the token was issued for, which is never undefined.
\<close>

theorem users_route_admin_only:
  assumes "params_id r = None"
      and "verifyToken e (clock oc) r = Next c"
      and "userRoleFromToken c \<noteq> ''admin''"
  shows "checkAdminOrOwner c (params_id r) =
           Respond (failure 403 ''Ban khong co quyen thuc hien hanh dong nay.'') \<and>
         getUsers e oc st r = (st, failure 403 ''Ban khong co quyen thuc hien hanh dong nay.'')"
  using assms
  by (simp add: getUsers_def protected_def checkAdminOrOwner_def failure_def)

theorem users_route_admin_only_witness:
  "checkAdminOrOwner bob_claims None =
     Respond (failure 403 ''Ban khong co quyen thuc hien hanh dong nay.'') \<and>
   getUsers example_env example_outcome example_state
     (blank_req\<lparr>cookies_token := Some (Jwt bob_claims 3605 ''s3cret'')\<rparr>) =
     (example_state, failure 403 ''Ban khong co quyen thuc hien hanh dong nay.'')"
proof -
  let ?r = "blank_req\<lparr>cookies_token := Some (Jwt bob_claims 3605 ''s3cret'')\<rparr>"
  have p: "params_id ?r = None"
    by (simp add: blank_req_def)
  have v: "verifyToken example_env (clock example_outcome) ?r = Next bob_claims"
    by (simp add: verifyToken_def or_token_def token_truthy_def example_env_def clock_def
        example_outcome_def)
  have a: "userRoleFromToken bob_claims \<noteq> ''admin''"
    by (simp add: bob_claims_def)
  show ?thesis
    using users_route_admin_only [OF p v a, of example_state] by (simp add: p)
qed

subsection \<open>Reading a profile\<close>

text \<open>
  Claim C10. GET /:id mounts no authentication middleware: for the id of a stored
  identity (the 24 hexadecimal digits of its ObjectId) it answers 200 with that
  identity's record, the password field removed, whatever cookie or Authorization
  header the request carries, and so as well when it carries neither.
\<close>

theorem getUserById_needs_no_token:
  assumes "findById (Some i) (users st) = Some u"
      and "objectId_shape i"
      and "params_id r = Some i"
  shows "getUserById e oc st r =
           (st, (reply 200)\<lparr>success := Some True,
                  message := Some ''Lay thong tin nguoi dung thanh cong.'',
                  res_user := Some (u\<lparr>password := None\<rparr>)\<rparr>) \<and>
         getUserById e oc st (r\<lparr>cookies_token := None, authorization := None\<rparr>) =
           getUserById e oc st r"
  using assms by (simp add: getUserById_def select_no_password_def)

theorem getUserById_needs_no_token_witness:
  "getUserById example_env example_outcome example_state
     (blank_req\<lparr>params_id := Some ''65f0c0ffee65f0c0ffee0002''\<rparr>) =
     (example_state, (reply 200)\<lparr>success := Some True,
        message := Some ''Lay thong tin nguoi dung thanh cong.'',
        res_user := Some (bob\<lparr>password := None\<rparr>)\<rparr>) \<and>
   cookies_token (blank_req\<lparr>params_id := Some ''65f0c0ffee65f0c0ffee0002''\<rparr>) = None \<and>
   authorization (blank_req\<lparr>params_id := Some ''65f0c0ffee65f0c0ffee0002''\<rparr>) = None"
proof -
  let ?i = "''65f0c0ffee65f0c0ffee0002''"
  let ?r = "blank_req\<lparr>params_id := Some ?i\<rparr>"
  have f: "findById (Some ?i) (users example_state) = Some bob"
    by (simp add: findById_def example_state_def alice_def bob_def)
  have s: "objectId_shape ?i"
    by (simp add: objectId_shape_def is_hex_def hex_chars_def)
  have p: "params_id ?r = Some ?i"
    by simp
  show ?thesis
    using getUserById_needs_no_token [OF f s p, of example_env example_outcome]
    by (simp add: blank_req_def)
qed

subsection \<open>Sign-in failures\<close>

lemma trim_Nil: "trim [] = []"
  by (simp add: trim_def)

lemma validateSignin_Next:
  assumes "validateSignin r = Next ()"
  shows "truthy (body_usernameOrPhone r) \<and> truthy (body_password r)"
proof -
  from assms have d: "signin_details r = []"
    by (simp add: validateSignin_def Let_def split: if_splits)
  then have "truthy (body_usernameOrPhone r)"
    by (auto simp: signin_details_def joi_string_def truthy_def trim_Nil Let_def
        split: option.splits if_splits)
  moreover from d have "truthy (body_password r)"
    by (auto simp: signin_details_def joi_string_def truthy_def Let_def
        split: option.splits if_splits)
  ultimately show ?thesis by simp
qed

text \<open>
  Claim C8. A sign-in request that passes the rate limiter and the validator gets the
  same response when the lookup by username or phone finds no identity as when the
  identity is found but the password does not verify: status 400 and the same message,
  so the two failures cannot be told apart from the response. Neither changes the store.
\<close>

theorem signin_miss_and_mismatch_alike:
  assumes "\<not> rate_limited oc1" and "validateSignin r1 = Next ()"
      and "signin_lookup st1 (the (body_usernameOrPhone r1)) = None"
      and "\<not> rate_limited oc2" and "validateSignin r2 = Next ()"
      and "signin_lookup st2 (the (body_usernameOrPhone r2)) = Some u"
      and "password u = Some hashed"
      and "\<not> checkPassword (the (body_password r2)) hashed"
  shows "snd (signin e1 oc1 st1 r1) = snd (signin e2 oc2 st2 r2) \<and>
         snd (signin e1 oc1 st1 r1) =
           failure 400 ''Ten dang nhap, so dien thoai hoac mat khau khong dung.'' \<and>
         status (snd (signin e1 oc1 st1 r1)) = 400 \<and>
         fst (signin e1 oc1 st1 r1) = st1 \<and> fst (signin e2 oc2 st2 r2) = st2"
proof -
  have t1: "truthy (body_usernameOrPhone r1) \<and> truthy (body_password r1)"
    using assms(2) by (rule validateSignin_Next)
  have t2: "truthy (body_usernameOrPhone r2) \<and> truthy (body_password r2)"
    using assms(5) by (rule validateSignin_Next)
  have miss: "signin e1 oc1 st1 r1 =
      (st1, failure 400 ''Ten dang nhap, so dien thoai hoac mat khau khong dung.'')"
    using assms(1,2,3) t1 by (simp add: signin_def authLimiter_def signin_handler_def)
  have mismatch: "signin e2 oc2 st2 r2 =
      (st2, failure 400 ''Ten dang nhap, so dien thoai hoac mat khau khong dung.'')"
    using assms(4,5,6,7,8) t2 by (simp add: signin_def authLimiter_def signin_handler_def)
  show ?thesis
    by (simp add: miss mismatch failure_def reply_def)
qed

lemma validateSignin_bob: "validateSignin (signin_req ''bob'' ''WrongPass1!'') = Next ()"
  by (simp add: validateSignin_def signin_details_def signin_req_def joi_string_def joi_min_def
      joi_max_def joi_alphanum_def trim_def is_space_def is_alnum_def is_upper_def is_lower_def
      is_digit_def upper_chars_def lower_chars_def digit_chars_def)

lemma validateSignin_nobody: "validateSignin (signin_req ''nobody'' ''WrongPass1!'') = Next ()"
  by (simp add: validateSignin_def signin_details_def signin_req_def joi_string_def joi_min_def
      joi_max_def joi_alphanum_def trim_def is_space_def is_alnum_def is_upper_def is_lower_def
      is_digit_def upper_chars_def lower_chars_def digit_chars_def)

theorem signin_miss_and_mismatch_alike_witness:
  "snd (signin example_env example_outcome example_state (signin_req ''nobody'' ''WrongPass1!'')) =
   snd (signin example_env example_outcome example_state (signin_req ''bob'' ''WrongPass1!'')) \<and>
   snd (signin example_env example_outcome example_state (signin_req ''nobody'' ''WrongPass1!'')) =
     failure 400 ''Ten dang nhap, so dien thoai hoac mat khau khong dung.'' \<and>
   signin_lookup example_state ''nobody'' = None \<and>
   signin_lookup example_state ''bob'' = Some bob"
proof -
  have l1: "signin_lookup example_state (the (body_usernameOrPhone (signin_req ''nobody'' ''WrongPass1!''))) = None"
    by (simp add: signin_req_def signin_lookup_def isPhone_def findOne_def example_state_def
        alice_def bob_def)
  have l2: "signin_lookup example_state (the (body_usernameOrPhone (signin_req ''bob'' ''WrongPass1!''))) = Some bob"
    by (simp add: signin_req_def signin_lookup_def isPhone_def findOne_def example_state_def
        alice_def bob_def)
  have nl: "\<not> rate_limited example_outcome"
    by (simp add: example_outcome_def)
  have pw: "password bob = Some (Digest ''salt-b'' ''OldPass1!'')"
    by (simp add: bob_def)
  have bad: "\<not> checkPassword (the (body_password (signin_req ''bob'' ''WrongPass1!'')))
      (Digest ''salt-b'' ''OldPass1!'')"
    by (simp add: checkPassword_def signin_req_def)
  have l1': "signin_lookup example_state ''nobody'' = None"
    using l1 by (simp add: signin_req_def)
  have l2': "signin_lookup example_state ''bob'' = Some bob"
    using l2 by (simp add: signin_req_def)
  from signin_miss_and_mismatch_alike [OF nl validateSignin_nobody l1 nl validateSignin_bob l2 pw bad,
        of example_env example_env] l1' l2'
  show ?thesis by blast
qed

subsection \<open>Passwords\<close>

lemma digits_of_numeral:
  "digits_of (numeral k) n =
     (if n < 10 then [digit_chars ! n]
      else digits_of (pred_numeral k) (n div 10) @ [digit_chars ! (n mod 10)])"
  by (simp add: numeral_eq_Suc)

lemma show_nat_1234567: "show_nat 1234567 = ''1234567''"
  by (simp add: show_nat_def digits_of_numeral digit_chars_def)

lemma bob_protected:
  "protected example_env (clock example_outcome) weak_change_req = Next bob_claims"
  by (simp add: protected_def weak_change_req_def bob_session_def blank_req_def
      verifyToken_def or_token_def token_truthy_def example_env_def clock_def
      example_outcome_def checkAdminOrOwner_def bob_claims_def)

text \<open>
  Claim C6 says that a password change replaces the stored hash only when the current
  password verifies, and rejects a new password that violates the strength policy of
  sign-up. The handler tests \<^verbatim>\<open>!isValidPassword(newPassword)\<close>, the negation of an
  array, which is false for every array: the rejection is never taken. Here bob, with
  his valid session and his correct current password, changes his password to the one
  letter \<^verbatim>\<open>a\<close>, which violates four rules of the policy; the digest of \<^verbatim>\<open>a\<close> is
  stored and the answer is 200.
\<close>

theorem changePassword_accepts_weak_password:
  "isValidPassword ''a'' =
     [''Mat khau phai chua it nhat 8 ky tu.'',
      ''Mat khau phai chua it nhat mot chu cai viet hoa.'',
      ''Mat khau phai chua it nhat mot chu so.'',
      ''Mat khau phai chua it nhat mot ky tu dac biet (!@#$%^&*...).''] \<and>
   changePassword example_env example_outcome example_state weak_change_req =
     (example_state\<lparr>users :=
        [alice, bob\<lparr>password := Some (Digest ''N9qo8uLOickgx2ZMRZoMye'' ''a'')\<rparr>]\<rparr>,
      (reply 200)\<lparr>success := Some True,
        message := Some ''Mat khau da duoc thay doi thanh cong.''\<rparr>)"
proof -
  have p: "isValidPassword ''a'' =
     [''Mat khau phai chua it nhat 8 ky tu.'',
      ''Mat khau phai chua it nhat mot chu cai viet hoa.'',
      ''Mat khau phai chua it nhat mot chu so.'',
      ''Mat khau phai chua it nhat mot ky tu dac biet (!@#$%^&*...).'']"
    by (simp add: isValidPassword_def minLength_def is_upper_def is_lower_def is_digit_def
        is_special_def upper_chars_def lower_chars_def digit_chars_def special_chars_def)
  have f: "findById (params_id weak_change_req) (users example_state) = Some bob"
    by (simp add: weak_change_req_def bob_session_def findById_def example_state_def
        alice_def bob_def)
  have b: "truthy (body_currentPassword weak_change_req) \<and> truthy (body_newPassword weak_change_req)
      \<and> the (body_currentPassword weak_change_req) = ''OldPass1!''
      \<and> the (body_newPassword weak_change_req) = ''a''"
    by (simp add: weak_change_req_def truthy_def)
  have r: "replace_doc (bob\<lparr>password := Some (Digest ''N9qo8uLOickgx2ZMRZoMye'' ''a'')\<rparr>)
        (users example_state) =
      [alice, bob\<lparr>password := Some (Digest ''N9qo8uLOickgx2ZMRZoMye'' ''a'')\<rparr>]"
    by (simp add: replace_doc_def example_state_def alice_def bob_def)
  have s: "salt example_outcome = ''N9qo8uLOickgx2ZMRZoMye''"
    by (simp add: example_outcome_def)
  have pw: "password bob = Some (Digest ''salt-b'' ''OldPass1!'')"
    by (simp add: bob_def)
  have "changePassword example_env example_outcome example_state weak_change_req =
     (example_state\<lparr>users :=
        [alice, bob\<lparr>password := Some (Digest ''N9qo8uLOickgx2ZMRZoMye'' ''a'')\<rparr>]\<rparr>,
      (reply 200)\<lparr>success := Some True,
        message := Some ''Mat khau da duoc thay doi thanh cong.''\<rparr>)"
    by (simp add: changePassword_def bob_protected f b pw array_truthy_def bcrypt_hash_def s r)
  with p show ?thesis by simp
qed

text \<open>
  Claim C3 says that every password persisted is a bcrypt digest and that no response
  body contains a plaintext password or a stored password field. The federated sign-in
  stores the random password of a new identity as it is, without hashing it, and puts
  the document, password field included, into the response body; for an identity that
  exists already the body carries its stored digest.
\<close>

theorem authWithGoogle_stores_and_returns_password:
  "password (last (users (fst (authWithGoogle example_env example_outcome example_state
       (google_req ''Carol Client'' ''carol@example.com''))))) = Some (Clear ''k3x9q2ab'') \<and>
   \<not> is_digest (Clear ''k3x9q2ab'') \<and>
   map_option password (res_user (snd (authWithGoogle example_env example_outcome example_state
       (google_req ''Carol Client'' ''carol@example.com'')))) = Some (Some (Clear ''k3x9q2ab'')) \<and>
   map_option password (res_user (snd (authWithGoogle example_env example_outcome example_state
       (google_req ''Bob Buyer'' ''bob@example.com'')))) =
     Some (Some (Digest ''salt-b'' ''OldPass1!''))"
proof -
  let ?carol = "\<lparr>uid = ''65f0c0ffee65f0c0ffee0003'', username = ''temp_carolclient'',
      phone = ''0341234567'', password = Some (Clear ''k3x9q2ab''),
      fullName = ''Carol Client'', email = Some ''carol@example.com'', role = ''user'',
      isActive = True, rememberMe = None, avatar = None\<rparr>"
  have miss: "findOne (\<lambda>v. email v = body_email (google_req ''Carol Client'' ''carol@example.com''))
      (users example_state) = None"
    by (simp add: google_req_def findOne_def example_state_def alice_def bob_def)
  have hit: "findOne (\<lambda>v. email v = body_email (google_req ''Bob Buyer'' ''bob@example.com''))
      (users example_state) = Some bob"
    by (simp add: google_req_def findOne_def example_state_def alice_def bob_def)
  have name: "toLowerCase ''CarolClient'' = ''carolclient''"
    by (simp add: toLowerCase_def upper_chars_def lower_chars_def)
  have ins: "insert_doc ?carol (users example_state) = Inr [alice, bob, ?carol]"
    by (simp add: insert_doc_def admissible_def example_state_def alice_def bob_def)
  have tok: "generateToken example_env (clock example_outcome) ?carol =
      Inr (Jwt \<lparr>userIdFromToken = ''65f0c0ffee65f0c0ffee0003'',
                 usernameFromToken = ''temp_carolclient'', userRoleFromToken = ''user''\<rparr>
             3605 ''s3cret'')"
    by (simp add: generateToken_def example_env_def jwt_sign_def ms_1h clock_def
        example_outcome_def)
  have tokb: "generateToken example_env (clock example_outcome) bob =
      Inr (Jwt bob_claims 3605 ''s3cret'')"
    by (simp add: generateToken_def example_env_def jwt_sign_def ms_1h clock_def
        example_outcome_def bob_def bob_claims_def)
  have o: "new_id example_outcome = ''65f0c0ffee65f0c0ffee0003'' \<and>
      random_phone example_outcome = 1234567 \<and> random_password example_outcome = ''k3x9q2ab''"
    by (simp add: example_outcome_def)
  have b: "body_fullName (google_req ''Carol Client'' ''carol@example.com'') = Some ''Carol Client'' \<and>
      body_email (google_req ''Carol Client'' ''carol@example.com'') = Some ''carol@example.com'' \<and>
      body_images (google_req ''Carol Client'' ''carol@example.com'') = None"
    by (simp add: google_req_def blank_req_def)
  have new: "authWithGoogle example_env example_outcome example_state
       (google_req ''Carol Client'' ''carol@example.com'') =
     (example_state\<lparr>users := [alice, bob, ?carol]\<rparr>,
      google_reply example_env ?carol
        (Jwt \<lparr>userIdFromToken = ''65f0c0ffee65f0c0ffee0003'',
                 usernameFromToken = ''temp_carolclient'', userRoleFromToken = ''user''\<rparr>
             3605 ''s3cret''))"
    unfolding authWithGoogle_def miss
    by (simp add: b o name show_nat_1234567 ins tok Let_def)
  have old: "authWithGoogle example_env example_outcome example_state
       (google_req ''Bob Buyer'' ''bob@example.com'') =
     (example_state, google_reply example_env bob (Jwt bob_claims 3605 ''s3cret''))"
    unfolding authWithGoogle_def hit
    by (simp add: tokb)
  show ?thesis
    by (simp add: new old google_reply_def bob_def)
qed

subsection \<open>Sign-up password policy\<close>

lemmas char_class_defs =
  is_upper_def is_lower_def is_digit_def is_special_def is_alnum_def is_space_def
  is_line_end_def upper_chars_def lower_chars_def digit_chars_def special_chars_def

lemma isValidPassword_abc12345:
  "isValidPassword ''abc12345'' =
     [''Mat khau phai chua it nhat mot chu cai viet hoa.'',
      ''Mat khau phai chua it nhat mot ky tu dac biet (!@#$%^&*...).'']"
  by (simp add: isValidPassword_def minLength_def char_class_defs)

lemma password_details_abc12345:
  assumes "body_password r = Some ''abc12345''"
  shows "password_details r =
           [Message ''Mat khau phai co it nhat 1 chu hoa, 1 chu thuong va 1 so'']"
  using assms
  by (simp add: password_details_def joi_string_def joi_min_def joi_max_def
      password_pattern_def char_class_defs)

lemma others_valid_signup_req:
  "username_details (signup_req p) = [] \<and> phone_details (signup_req p) = [] \<and>
   fullName_details (signup_req p) = [] \<and> confirmPassword_details (signup_req p) = []"
  by (simp add: signup_req_def username_details_def phone_details_def fullName_details_def
      confirmPassword_details_def joi_string_def joi_min_def joi_max_def joi_alphanum_def
      joi_phone_def phone_pattern_def phone_prefix_def trim_def char_class_defs)

lemma validateSignup_Next:
  assumes "validateSignup r = Next ()"
  shows "truthy (body_username r) \<and> truthy (body_phone r) \<and> truthy (body_password r) \<and>
         truthy (body_fullName r) \<and> truthy (body_confirmPassword r) \<and>
         body_password r = body_confirmPassword r"
proof -
  from assms have d: "signup_details r = []"
    by (simp add: validateSignup_def Let_def split: if_splits)
  then have u: "username_details r = []" and p: "phone_details r = []"
    and f: "fullName_details r = []" and w: "password_details r = []"
    and c: "confirmPassword_details r = []"
    by (simp_all add: signup_details_def)
  from u have 1: "truthy (body_username r)"
    by (auto simp: username_details_def joi_string_def truthy_def trim_def Let_def
        split: option.splits if_splits)
  from p have 2: "truthy (body_phone r)"
    by (auto simp: phone_details_def joi_string_def truthy_def Let_def
        split: option.splits if_splits)
  from f have 3: "truthy (body_fullName r)"
    by (auto simp: fullName_details_def joi_string_def truthy_def trim_def Let_def
        split: option.splits if_splits)
  from w have 4: "truthy (body_password r)"
    by (auto simp: password_details_def joi_string_def truthy_def Let_def
        split: option.splits if_splits)
  from c have 5: "body_password r = body_confirmPassword r"
    by (auto simp: confirmPassword_details_def split: option.splits if_splits)
  from 1 2 3 4 5 show ?thesis by simp
qed

text \<open>
  Claim C7, as stated, fails: the sign-up request with password \<^verbatim>\<open>abc12345\<close> and
  otherwise valid fields is answered by the validator in front of the handler, with one
  entry that names upper case, lower case and digit together; the handler's list of
  violated rules is not in the response.
\<close>

theorem signup_abc12345_counterexample:
  "snd (signup example_env example_outcome example_state (signup_req ''abc12345'')) =
     (reply 400)\<lparr>success := Some False, message := Some ''Du lieu dang ky khong hop le'',
       details := Some [Message ''Mat khau phai co it nhat 1 chu hoa, 1 chu thuong va 1 so'']\<rparr> \<and>
   errors (snd (signup example_env example_outcome example_state (signup_req ''abc12345''))) \<noteq>
     Some [''Mat khau phai chua it nhat mot chu cai viet hoa.'',
           ''Mat khau phai chua it nhat mot ky tu dac biet (!@#$%^&*...).'']"
proof -
  have p: "body_password (signup_req ''abc12345'') = Some ''abc12345''"
    by (simp add: signup_req_def)
  have d: "signup_details (signup_req ''abc12345'') =
      [Message ''Mat khau phai co it nhat 1 chu hoa, 1 chu thuong va 1 so'']"
    by (simp add: signup_details_def others_valid_signup_req password_details_abc12345 [OF p])
  have "signup example_env example_outcome example_state (signup_req ''abc12345'') =
     (example_state, (reply 400)\<lparr>success := Some False,
        message := Some ''Du lieu dang ky khong hop le'',
        details := Some [Message ''Mat khau phai co it nhat 1 chu hoa, 1 chu thuong va 1 so'']\<rparr>)"
    by (simp add: signup_def authLimiter_def example_outcome_def validateSignup_def d)
  then show ?thesis by (simp add: reply_def)
qed

text \<open>
  Claim C7, amended. A sign-up request whose password is \<^verbatim>\<open>abc12345\<close> is rejected
  with status 400 and nothing is stored; the rejection comes from the validator
  \<^verbatim>\<open>validateSignup\<close>, carries no \<^verbatim>\<open>errors\<close> list, and its \<^verbatim>\<open>details\<close> hold the
  schema's one message for the upper case, lower case and digit pattern (exactly that
  entry when the other fields are valid). The password policy itself finds for
  \<^verbatim>\<open>abc12345\<close> exactly two independent violations, upper case missing and special
  character missing, the minimum length being satisfied; the handler returns the
  policy's list as \<^verbatim>\<open>errors\<close> for every request that passes the validator and the
  phone check with a password violating the policy.
\<close>

theorem signup_abc12345_rejected_by_validator:
  "(\<not> rate_limited oc \<and> body_password r = Some ''abc12345'' \<longrightarrow>
      fst (signup e oc st r) = st \<and>
      status (snd (signup e oc st r)) = 400 \<and>
      message (snd (signup e oc st r)) = Some ''Du lieu dang ky khong hop le'' \<and>
      errors (snd (signup e oc st r)) = None \<and>
      (\<exists>ds. details (snd (signup e oc st r)) = Some ds \<and>
            Message ''Mat khau phai co it nhat 1 chu hoa, 1 chu thuong va 1 so'' \<in> set ds)) \<and>
   (\<not> rate_limited oc \<and> body_password r = Some ''abc12345'' \<and>
    username_details r = [] \<and> phone_details r = [] \<and> fullName_details r = [] \<and>
    confirmPassword_details r = [] \<longrightarrow>
      details (snd (signup e oc st r)) =
        Some [Message ''Mat khau phai co it nhat 1 chu hoa, 1 chu thuong va 1 so'']) \<and>
   isValidPassword ''abc12345'' =
     [''Mat khau phai chua it nhat mot chu cai viet hoa.'',
      ''Mat khau phai chua it nhat mot ky tu dac biet (!@#$%^&*...).''] \<and>
   (\<not> rate_limited oc \<and> validateSignup r = Next () \<and> isMobilePhone e (the (body_phone r)) \<and>
    isValidPassword (the (body_password r)) \<noteq> [] \<longrightarrow>
      signup e oc st r =
        (st, (failure 400 ''Mat khau khong hop le.'')
               \<lparr>errors := Some (isValidPassword (the (body_password r))),
                rtype := Some ''error''\<rparr>))"
proof (intro conjI impI)
  assume a: "\<not> rate_limited oc \<and> body_password r = Some ''abc12345''"
  then have pd: "password_details r =
      [Message ''Mat khau phai co it nhat 1 chu hoa, 1 chu thuong va 1 so'']"
    by (simp add: password_details_abc12345)
  then have ne: "signup_details r \<noteq> []"
    by (simp add: signup_details_def)
  have s: "signup e oc st r = (st, (reply 400)\<lparr>success := Some False,
        message := Some ''Du lieu dang ky khong hop le'', details := Some (signup_details r)\<rparr>)"
    using a ne by (simp add: signup_def authLimiter_def validateSignup_def)
  show "fst (signup e oc st r) = st" by (simp add: s)
  show "status (snd (signup e oc st r)) = 400" by (simp add: s reply_def)
  show "message (snd (signup e oc st r)) = Some ''Du lieu dang ky khong hop le''"
    by (simp add: s)
  show "errors (snd (signup e oc st r)) = None" by (simp add: s reply_def)
  show "\<exists>ds. details (snd (signup e oc st r)) = Some ds \<and>
            Message ''Mat khau phai co it nhat 1 chu hoa, 1 chu thuong va 1 so'' \<in> set ds"
    by (simp add: s signup_details_def pd)
next
  assume a: "\<not> rate_limited oc \<and> body_password r = Some ''abc12345'' \<and>
    username_details r = [] \<and> phone_details r = [] \<and> fullName_details r = [] \<and>
    confirmPassword_details r = []"
  then have d: "signup_details r =
      [Message ''Mat khau phai co it nhat 1 chu hoa, 1 chu thuong va 1 so'']"
    by (simp add: signup_details_def password_details_abc12345)
  show "details (snd (signup e oc st r)) =
        Some [Message ''Mat khau phai co it nhat 1 chu hoa, 1 chu thuong va 1 so'']"
    using a by (simp add: signup_def authLimiter_def validateSignup_def d)
next
  show "isValidPassword ''abc12345'' =
     [''Mat khau phai chua it nhat mot chu cai viet hoa.'',
      ''Mat khau phai chua it nhat mot ky tu dac biet (!@#$%^&*...).'']"
    by (rule isValidPassword_abc12345)
next
  assume a: "\<not> rate_limited oc \<and> validateSignup r = Next () \<and>
    isMobilePhone e (the (body_phone r)) \<and> isValidPassword (the (body_password r)) \<noteq> []"
  then have v: "validateSignup r = Next ()" by simp
  note t = validateSignup_Next [OF v]
  have req: "checkRequiredFields
             [(''username'', body_username r), (''phone'', body_phone r),
              (''password'', body_password r), (''fullName'', body_fullName r),
              (''confirmPassword'', body_confirmPassword r)] = None"
    using t by simp
  show "signup e oc st r =
        (st, (failure 400 ''Mat khau khong hop le.'')
               \<lparr>errors := Some (isValidPassword (the (body_password r))),
                rtype := Some ''error''\<rparr>)"
    using a t unfolding signup_def signup_handler_def req
    by (simp add: authLimiter_def Let_def)
qed


theorem signup_abc12345_rejected_by_validator_witness:
  "fst (signup example_env example_outcome example_state (signup_req ''abc12345'')) =
     example_state \<and>
   status (snd (signup example_env example_outcome example_state (signup_req ''abc12345''))) =
     400 \<and>
   details (snd (signup example_env example_outcome example_state (signup_req ''abc12345''))) =
     Some [Message ''Mat khau phai co it nhat 1 chu hoa, 1 chu thuong va 1 so''] \<and>
   signup example_env example_outcome example_state (signup_req ''Abc12345'') =
     (example_state, (failure 400 ''Mat khau khong hop le.'')
        \<lparr>errors := Some [''Mat khau phai chua it nhat mot ky tu dac biet (!@#$%^&*...).''],
         rtype := Some ''error''\<rparr>)"
proof -
  let ?weak = "signup_req ''abc12345''"
  let ?mid = "signup_req ''Abc12345''"
  have nl: "\<not> rate_limited example_outcome"
    by (simp add: example_outcome_def)
  have p: "body_password ?weak = Some ''abc12345''"
    by (simp add: signup_req_def)
  have h1: "\<not> rate_limited example_outcome \<and> body_password ?weak = Some ''abc12345''"
    using nl p by simp
  have h2: "\<not> rate_limited example_outcome \<and> body_password ?weak = Some ''abc12345'' \<and>
      username_details ?weak = [] \<and> phone_details ?weak = [] \<and> fullName_details ?weak = [] \<and>
      confirmPassword_details ?weak = []"
    using nl p others_valid_signup_req [of "''abc12345''"] by simp
  have pm: "password_details ?mid = []"
    by (simp add: signup_req_def password_details_def joi_string_def joi_min_def joi_max_def
        password_pattern_def char_class_defs)
  have vm: "validateSignup ?mid = Next ()"
    by (simp add: validateSignup_def signup_details_def others_valid_signup_req pm)
  have bm: "the (body_password ?mid) = ''Abc12345'' \<and> the (body_phone ?mid) = ''0912345679''"
    by (simp add: signup_req_def)
  have im: "isValidPassword ''Abc12345'' =
      [''Mat khau phai chua it nhat mot ky tu dac biet (!@#$%^&*...).'']"
    by (simp add: isValidPassword_def minLength_def char_class_defs)
  have h4: "\<not> rate_limited example_outcome \<and> validateSignup ?mid = Next () \<and>
      isMobilePhone example_env (the (body_phone ?mid)) \<and>
      isValidPassword (the (body_password ?mid)) \<noteq> []"
    using nl vm by (simp add: bm im example_env_def)
  note th = signup_abc12345_rejected_by_validator
  have a: "fst (signup example_env example_outcome example_state ?weak) = example_state \<and>
      status (snd (signup example_env example_outcome example_state ?weak)) = 400"
    using th [of example_outcome ?weak example_env example_state, THEN conjunct1, rule_format,
        OF h1] by simp
  have b: "details (snd (signup example_env example_outcome example_state ?weak)) =
      Some [Message ''Mat khau phai co it nhat 1 chu hoa, 1 chu thuong va 1 so'']"
    using th [of example_outcome ?weak example_env example_state, THEN conjunct2,
        THEN conjunct1, rule_format, OF h2] .
  have c: "signup example_env example_outcome example_state ?mid =
     (example_state, (failure 400 ''Mat khau khong hop le.'')
        \<lparr>errors := Some [''Mat khau phai chua it nhat mot ky tu dac biet (!@#$%^&*...).''],
         rtype := Some ''error''\<rparr>)"
    using th [of example_outcome ?mid example_env example_state, THEN conjunct2,
        THEN conjunct2, THEN conjunct2, rule_format, OF h4]
    by (simp add: bm im)
  from a b c show ?thesis by blast
qed

subsection \<open>Who can change a role\<close>

lemma findById_Some:
  "findById (Some i) us = Some u \<Longrightarrow> u \<in> set us \<and> uid u = i"
  by (auto simp: findById_def find_Some_iff)

lemma findOne_Some: "findOne P us = Some u \<Longrightarrow> u \<in> set us \<and> P u"
  by (auto simp: findOne_def find_Some_iff)

lemma findById_distinct:
  "distinct (map uid us) \<Longrightarrow> u \<in> set us \<Longrightarrow> findById (Some (uid u)) us = Some u"
proof (induction us)
  case Nil
  then show ?case by simp
next
  case (Cons a us)
  then show ?case by (auto simp: findById_def)
qed

lemma findById_append:
  "findById (Some i) us = Some u \<Longrightarrow> findById (Some i) (us @ [d]) = Some u"
  by (induction us) (auto simp: findById_def)

lemma findById_delete:
  "j \<noteq> Some i \<Longrightarrow> findById (Some i) (findByIdAndDelete j us) = findById (Some i) us"
  by (induction us) (auto simp: findById_def findByIdAndDelete_def)

lemma uid_replace_doc: "map uid (replace_doc d us) = map uid us"
  by (induction us) (auto simp: replace_doc_def)

lemma findById_replace_other:
  "uid d \<noteq> i \<Longrightarrow> findById (Some i) (replace_doc d us) = findById (Some i) us"
  by (induction us) (auto simp: findById_def replace_doc_def)

lemma findById_replace_same:
  "findById (Some (uid d)) us = Some u \<Longrightarrow> findById (Some (uid d)) (replace_doc d us) = Some d"
  by (induction us) (auto simp: findById_def replace_doc_def split: if_splits)

lemma harmless_keeps:
  assumes "distinct (map uid us)" and "harmless i us us'"
  shows "distinct (map uid us') \<and>
         (\<forall>u. findById (Some i) us = Some u \<longrightarrow>
              (\<exists>u'. findById (Some i) us' = Some u' \<and> role u' = role u))"
proof -
  from assms(2) consider
      (same) "us' = us"
    | (new) d where "uid d \<notin> set (map uid us)" "us' = us @ [d]"
    | (repl) d u where "u \<in> set us" "uid d = uid u" "role d = role u \<or> uid d \<noteq> i"
        "us' = replace_doc d us"
    | (del) j where "j \<noteq> Some i" "us' = findByIdAndDelete j us"
    unfolding harmless_def by blast
  then show ?thesis
  proof cases
    case same
    with assms(1) show ?thesis by simp
  next
    case new
    with assms(1) show ?thesis by (auto simp: findById_append)
  next
    case repl
    have d: "distinct (map uid us')"
      using assms(1) repl(4) by (simp add: uid_replace_doc)
    have f: "findById (Some (uid d)) us = Some u"
      using findById_distinct [OF assms(1) repl(1)] repl(2) by simp
    show ?thesis
    proof (cases "uid d = i")
      case True
      with repl(3) have "role d = role u" by simp
      with f True repl(4) d show ?thesis
        using findById_replace_same [OF f] by auto
    next
      case False
      with repl(4) d show ?thesis by (simp add: findById_replace_other)
    qed
  next
    case del
    have "distinct (map uid us')"
      using assms(1) del(2) by (simp add: findByIdAndDelete_def distinct_map_filter)
    with del show ?thesis by (simp add: findById_delete)
  qed
qed

lemma protected_Next:
  "protected e now r = Next c \<Longrightarrow>
     verifyToken e now r = Next c \<and>
     (userRoleFromToken c = ''admin'' \<or> Some (userIdFromToken c) = params_id r)"
  by (auto simp: protected_def checkAdminOrOwner_def split: mw.splits if_splits)

lemma unprivileged_protected:
  assumes "\<not> privileged e i (rt, oc, r)" and "protected e (clock oc) r = Next c"
  shows "params_id r \<noteq> Some i"
  using assms protected_Next [OF assms(2)]
  by (auto simp: privileged_def requester_def)

lemma insert_doc_harmless:
  assumes "insert_doc d us = Inr us'"
  shows "harmless i us us'"
proof -
  from assms have "\<not> list_ex (\<lambda>v. uid v = uid d) us" and a: "us' = us @ [d]"
    by (auto simp: insert_doc_def split: if_splits)
  then have "uid d \<notin> set (map uid us)"
    by (auto simp: list_ex_iff)
  with a show ?thesis
    unfolding harmless_def by blast
qed

lemma getUsers_harmless: "harmless i (users st) (users (fst (getUsers e oc st r)))"
  by (simp add: getUsers_def harmless_def Let_def split: mw.splits)

lemma getUserById_harmless: "harmless i (users st) (users (fst (getUserById e oc st r)))"
  by (simp add: getUserById_def harmless_def split: option.splits)

lemma signout_harmless: "harmless i (users st) (users (fst (signout e oc st r)))"
  by (simp add: signout_def harmless_def)

lemma signin_harmless: "harmless i (users st) (users (fst (signin e oc st r)))"
  by (simp add: signin_def signin_handler_def harmless_def
      split: mw.splits option.splits sum.splits)

lemma signup_harmless: "harmless i (users st) (users (fst (signup e oc st r)))"
proof -
  have same: "harmless i (users st) (users st)"
    by (simp add: harmless_def)
  show ?thesis
    using same
    by (auto simp: signup_def signup_handler_def Let_def insert_doc_harmless
        split: mw.splits option.splits sum.splits)
qed

lemma authWithGoogle_harmless:
  "harmless i (users st) (users (fst (authWithGoogle e oc st r)))"
proof -
  have same: "harmless i (users st) (users st)"
    by (simp add: harmless_def)
  show ?thesis
    using same
    by (auto simp: authWithGoogle_def Let_def insert_doc_harmless
        split: option.splits sum.splits)
qed

lemma signin_lookup_Some: "signin_lookup st x = Some u \<Longrightarrow> u \<in> set (users st)"
  by (auto simp: signin_lookup_def dest: findOne_Some split: if_splits)

lemma same_role_harmless:
  "u \<in> set us \<Longrightarrow> uid d = uid u \<Longrightarrow> role d = role u \<Longrightarrow> harmless i us (replace_doc d us)"
  unfolding harmless_def by blast

lemma adminSignin_harmless:
  "harmless i (users st) (users (fst (adminSignin e oc st r)))"
proof -
  have same: "harmless i (users st) (users st)"
    by (simp add: harmless_def)
  show ?thesis
    using same
    by (auto simp: adminSignin_def Let_def split: option.splits sum.splits
        intro!: same_role_harmless dest: signin_lookup_Some)
qed

lemma changePassword_harmless:
  "harmless i (users st) (users (fst (changePassword e oc st r)))"
proof -
  have same: "harmless i (users st) (users st)"
    by (simp add: harmless_def)
  show ?thesis
  proof (cases "findById (params_id r) (users st)")
    case None
    with same show ?thesis
      by (simp add: changePassword_def split: mw.splits)
  next
    case (Some u)
    then obtain x where "params_id r = Some x"
      by (cases "params_id r") (simp_all add: findById_def)
    with Some have "u \<in> set (users st)"
      using findById_Some by simp
    with same Some show ?thesis
      by (auto simp: changePassword_def Let_def split: mw.splits option.splits
          intro!: same_role_harmless)
  qed
qed

lemma delete_harmless:
  "j \<noteq> Some i \<Longrightarrow> harmless i us (findByIdAndDelete j us)"
  unfolding harmless_def by blast

lemma other_id_harmless:
  "u \<in> set us \<Longrightarrow> uid d = uid u \<Longrightarrow> uid d \<noteq> i \<Longrightarrow> harmless i us (replace_doc d us)"
  unfolding harmless_def by blast

lemma deleteUser_harmless:
  assumes "\<not> privileged e i (rt, oc, r)"
  shows "harmless i (users st) (users (fst (deleteUser e oc st r)))"
proof (cases "protected e (clock oc) r")
  case (Respond res)
  then show ?thesis by (simp add: deleteUser_def harmless_def)
next
  case (Next c)
  from unprivileged_protected [OF assms Next]
  have "harmless i (users st) (findByIdAndDelete (params_id r) (users st))"
    by (rule delete_harmless)
  moreover have "harmless i (users st) (users st)"
    by (simp add: harmless_def)
  ultimately show ?thesis
    using Next by (simp add: deleteUser_def split: option.splits)
qed

lemma deleteUserAndOrders_harmless:
  assumes "\<not> privileged e i (rt, oc, r)"
  shows "harmless i (users st) (users (fst (deleteUserAndOrders e oc st r)))"
proof (cases "protected e (clock oc) r")
  case (Respond res)
  then show ?thesis by (simp add: deleteUserAndOrders_def harmless_def)
next
  case (Next c)
  from unprivileged_protected [OF assms Next]
  have "harmless i (users st) (findByIdAndDelete (params_id r) (users st))"
    by (rule delete_harmless)
  moreover have "harmless i (users st) (users st)"
    by (simp add: harmless_def)
  ultimately show ?thesis
    using Next by (simp add: deleteUserAndOrders_def Let_def split: option.splits)
qed

lemma updateUser_users:
  assumes "protected e (clock oc) r = Next c" and "params_id r = Some x"
      and "findById (Some x) (users st) = Some u"
  shows "users (fst (updateUser e oc st r)) = users st \<or>
         (\<exists>d. uid d = uid u \<and> users (fst (updateUser e oc st r)) = replace_doc d (users st))"
proof -
  have "uid (updatedData u r h a) = uid u" for h a
    by (simp add: updatedData_def)
  then show ?thesis
    using assms
    by (auto simp: updateUser_def Let_def findByIdAndUpdate_def
        split: sum.splits option.splits)
qed

lemma updateUser_harmless:
  assumes "\<not> privileged e i (rt, oc, r)"
  shows "harmless i (users st) (users (fst (updateUser e oc st r)))"
proof (cases "protected e (clock oc) r")
  case (Respond res)
  then show ?thesis by (simp add: updateUser_def harmless_def)
next
  case (Next c)
  note other = unprivileged_protected [OF assms Next]
  have same: "harmless i (users st) (users st)"
    by (simp add: harmless_def)
  show ?thesis
  proof (cases "params_id r")
    case None
    with Next same show ?thesis by (simp add: updateUser_def)
  next
    case (Some x)
    show ?thesis
    proof (cases "findById (Some x) (users st)")
      case None
      with Next Some same show ?thesis by (simp add: updateUser_def)
    next
      case found: (Some u)
      from findById_Some [OF found] have u: "u \<in> set (users st)" "uid u = x"
        by simp_all
      from other Some u(2) have "uid u \<noteq> i" by simp
      with updateUser_users [OF Next Some found] u(1) same show ?thesis
        by (auto intro!: other_id_harmless)
    qed
  qed
qed

lemma step_harmless:
  assumes "\<not> privileged e i call"
  shows "harmless i (users st) (users (step e st call))"
proof -
  obtain rt oc r where c: "call = (rt, oc, r)"
    by (cases call) auto
  show ?thesis
    using assms unfolding c
    by (cases rt)
      (simp_all add: getUsers_harmless getUserById_harmless deleteUser_harmless
        signup_harmless signin_harmless adminSignin_harmless authWithGoogle_harmless
        updateUser_harmless changePassword_harmless deleteUserAndOrders_harmless
        signout_harmless)
qed

lemma run_keeps:
  assumes "distinct (map uid (users st))"
      and "\<forall>call \<in> set calls. \<not> privileged e i call"
      and "findById (Some i) (users st) = Some u"
  shows "\<exists>u'. findById (Some i) (users (run e st calls)) = Some u' \<and> role u' = role u"
  using assms
proof (induction calls arbitrary: st u)
  case Nil
  then show ?case by (simp add: run_def)
next
  case (Cons call calls)
  from Cons.prems(2) have np: "\<not> privileged e i call" by simp
  from harmless_keeps [OF Cons.prems(1) step_harmless [OF np, of st]] Cons.prems(3)
  obtain u1 where d: "distinct (map uid (users (step e st call)))"
    and f: "findById (Some i) (users (step e st call)) = Some u1" and r: "role u1 = role u"
    by blast
  from Cons.prems(2) have rest: "\<forall>call \<in> set calls. \<not> privileged e i call" by simp
  from Cons.IH [OF d rest f] r show ?case
    by (simp add: run_def)
qed

text \<open>
  Claim C2, amended. Over every sequence of requests to the user routes, starting from
  a store whose documents have distinct ids: the role of an identity is never changed
  (nor is the identity removed) by requests none of which carries the claims of an admin
  or the claims of that identity itself. A request whose claims name another identity
  and a role other than admin leaves the role as it was.
\<close>

theorem role_change_needs_admin_or_owner:
  assumes "distinct (map uid (users st))"
      and "\<forall>call \<in> set calls. \<not> privileged e i call"
      and "role_of st i = Some rl"
  shows "role_of (run e st calls) i = Some rl"
proof -
  from assms(3) obtain u where f: "findById (Some i) (users st) = Some u" and r: "role u = rl"
    by (auto simp: role_of_def)
  from run_keeps [OF assms(1,2) f] r show ?thesis
    by (auto simp: role_of_def)
qed

lemma bob_claims_decoded:
  "cookies_token r = Some (Jwt bob_claims 3605 ''s3cret'') \<Longrightarrow>
   verifyToken example_env (clock example_outcome) r = Next bob_claims"
  by (simp add: verifyToken_def or_token_def token_truthy_def example_env_def clock_def
      example_outcome_def)

text \<open>
  Claim C2, as stated, fails: bob, whose claims carry the role user, sends PUT /:id for
  his own id with \<^verbatim>\<open>role: "admin"\<close> in the body. The admin-or-owner check lets the
  owner pass, the handler takes the role from the body, and bob's stored role changes
  from user to admin.
\<close>

theorem role_self_promotion_counterexample:
  "requester example_env (PUT_id, example_outcome, self_promote_req) = Some bob_claims \<and>
   userRoleFromToken bob_claims = ''user'' \<and>
   role_of example_state ''65f0c0ffee65f0c0ffee0002'' = Some ''user'' \<and>
   role_of (run example_env example_state [(PUT_id, example_outcome, self_promote_req)])
     ''65f0c0ffee65f0c0ffee0002'' = Some ''admin''"
proof -
  have c: "cookies_token self_promote_req = Some (Jwt bob_claims 3605 ''s3cret'')"
    by (simp add: self_promote_req_def bob_session_def)
  have v: "verifyToken example_env (clock example_outcome) self_promote_req = Next bob_claims"
    using c by (rule bob_claims_decoded)
  have p: "params_id self_promote_req = Some ''65f0c0ffee65f0c0ffee0002''"
    by (simp add: self_promote_req_def bob_session_def)
  have pr: "protected example_env (clock example_outcome) self_promote_req = Next bob_claims"
    by (simp add: protected_def v p checkAdminOrOwner_def bob_claims_def)
  have f: "findById (Some ''65f0c0ffee65f0c0ffee0002'') (users example_state) = Some bob"
    by (simp add: findById_def example_state_def alice_def bob_def)
  have ok: "objectIdIsValid example_env ''65f0c0ffee65f0c0ffee0002''"
    by (simp add: example_env_def objectId_shape_def is_hex_def hex_chars_def)
  have b: "body_username self_promote_req = None \<and> body_phone self_promote_req = None \<and>
      body_email self_promote_req = None \<and> body_password self_promote_req = None \<and>
      body_fullName self_promote_req = None \<and> body_isActive self_promote_req = None \<and>
      file_path self_promote_req = None \<and> body_role self_promote_req = Some ''admin''"
    by (simp add: self_promote_req_def bob_session_def blank_req_def)
  have ch: "update_checks example_env example_state self_promote_req
      ''65f0c0ffee65f0c0ffee0002'' bob = None"
    by (simp add: update_checks_def b truthy_def)
  have d: "updatedData bob self_promote_req None (avatar bob) = bob\<lparr>role := ''admin''\<rparr>"
    by (simp add: updatedData_def b or_str_def truthy_def bob_def)
  have up: "findByIdAndUpdate (bob\<lparr>role := ''admin''\<rparr>) (users example_state) =
      Inr [alice, bob\<lparr>role := ''admin''\<rparr>]"
    by (simp add: findByIdAndUpdate_def admissible_def replace_doc_def example_state_def
        alice_def bob_def)
  have "users (fst (updateUser example_env example_outcome example_state self_promote_req)) =
      [alice, bob\<lparr>role := ''admin''\<rparr>]"
    by (simp add: updateUser_def pr p ok f ch b truthy_def d up Let_def)
  then have after: "role_of (run example_env example_state
      [(PUT_id, example_outcome, self_promote_req)]) ''65f0c0ffee65f0c0ffee0002'' = Some ''admin''"
    by (simp add: run_def role_of_def findById_def alice_def bob_def)
  have before: "role_of example_state ''65f0c0ffee65f0c0ffee0002'' = Some ''user''"
    by (simp add: role_of_def f) (simp add: bob_def)
  have rq: "requester example_env (PUT_id, example_outcome, self_promote_req) = Some bob_claims"
    by (simp add: requester_def v)
  from rq before after show ?thesis
    by (simp add: bob_claims_def)
qed

theorem role_change_needs_admin_or_owner_witness:
  "role_of (run example_env example_state
      [(PUT_id, example_outcome, demote_alice_req),
       (DELETE_id, example_outcome, demote_alice_req),
       (POST_authentication_signin, example_outcome, signin_req ''alice'' ''Str0ng!Pass'')])
     ''65f0c0ffee65f0c0ffee0001'' = Some ''admin''"
proof -
  let ?i = "''65f0c0ffee65f0c0ffee0001''"
  have c: "cookies_token demote_alice_req = Some (Jwt bob_claims 3605 ''s3cret'')"
    by (simp add: demote_alice_req_def)
  have r1: "requester example_env (rt, example_outcome, demote_alice_req) = Some bob_claims"
    for rt
    by (simp add: requester_def bob_claims_decoded [OF c])
  have r2: "requester example_env
      (POST_authentication_signin, example_outcome, signin_req ''alice'' ''Str0ng!Pass'') = None"
    by (simp add: requester_def verifyToken_def or_token_def tokenFromHeader_def signin_req_def
        blank_req_def reply_def)
  have d: "distinct (map uid (users example_state))"
    by (simp add: example_state_def alice_def bob_def)
  have u: "\<forall>call \<in> set [(PUT_id, example_outcome, demote_alice_req),
       (DELETE_id, example_outcome, demote_alice_req),
       (POST_authentication_signin, example_outcome, signin_req ''alice'' ''Str0ng!Pass'')].
       \<not> privileged example_env ?i call"
    by (simp add: privileged_def r1 r2 bob_claims_def)
  have b: "role_of example_state ?i = Some ''admin''"
    by (simp add: role_of_def findById_def example_state_def alice_def)
  show ?thesis
    using role_change_needs_admin_or_owner [OF d u b] .
qed

end
